theory Spec2Isabelle
  imports Main "HOL-Library.Sublist"
begin

section \<open>The JavaScript runtime the generators rely on\<close>

text \<open>
  laravel2doc reads PHP source text and mines it with string methods and regular
  expressions. Source texts are modelled as \<^typ>\<open>string\<close> (lists of 8-bit characters), so
  the development covers ASCII texts: \<open>toLowerCase\<close> folds \<open>A-Z\<close> only and the class
  \<open>\s\<close> holds the six ASCII white-space characters.
\<close>

subsection \<open>String methods\<close>

definition toLowerCase_char :: "char \<Rightarrow> char" where
  "toLowerCase_char c =
     (case map_of (zip ''ABCDEFGHIJKLMNOPQRSTUVWXYZ'' ''abcdefghijklmnopqrstuvwxyz'') c of
        Some d \<Rightarrow> d | None \<Rightarrow> c)"

definition toLowerCase :: "string \<Rightarrow> string" where
  "toLowerCase s = map toLowerCase_char s"

definition toUpperCase_char :: "char \<Rightarrow> char" where
  "toUpperCase_char c =
     (case map_of (zip ''abcdefghijklmnopqrstuvwxyz'' ''ABCDEFGHIJKLMNOPQRSTUVWXYZ'') c of
        Some d \<Rightarrow> d | None \<Rightarrow> c)"

definition toUpperCase :: "string \<Rightarrow> string" where
  "toUpperCase s = map toUpperCase_char s"

fun startsWith :: "string \<Rightarrow> string \<Rightarrow> bool" where
  "startsWith s [] = True"
| "startsWith [] (p # ps) = False"
| "startsWith (c # cs) (p # ps) = (c = p \<and> startsWith cs ps)"

definition endsWith :: "string \<Rightarrow> string \<Rightarrow> bool" where
  "endsWith s p = startsWith (rev s) (rev p)"

text \<open>\<open>s.includes(sub)\<close>\<close>

fun includes_s :: "string \<Rightarrow> string \<Rightarrow> bool" where
  "includes_s [] sub = (sub = [])"
| "includes_s (c # cs) sub = (startsWith (c # cs) sub \<or> includes_s cs sub)"

text \<open>\<open>s.replace(pat, repl)\<close> with a string pattern: the first occurrence only.\<close>

fun replace_str :: "string \<Rightarrow> string \<Rightarrow> string \<Rightarrow> string" where
  "replace_str [] pat repl = (if pat = [] then repl else [])"
| "replace_str (c # cs) pat repl =
     (if startsWith (c # cs) pat then repl @ drop (length pat) (c # cs)
      else c # replace_str cs pat repl)"

text \<open>\<open>s.split(c)\<close> for a one-character separator; the second argument is the piece
  being collected, reversed.\<close>

fun split_char :: "char \<Rightarrow> string \<Rightarrow> string \<Rightarrow> string list" where
  "split_char sep acc [] = [rev acc]"
| "split_char sep acc (c # cs) =
     (if c = sep then rev acc # split_char sep [] cs else split_char sep (c # acc) cs)"

definition space :: "char \<Rightarrow> bool" where
  "space c = (c \<in> set [CHR '' '', CHR 0x09, CHR 0x0A, CHR 0x0B, CHR 0x0C, CHR 0x0D])"

definition trim :: "string \<Rightarrow> string" where
  "trim s = rev (dropWhile space (rev (dropWhile space s)))"

subsection \<open>Regular expressions\<close>

text \<open>
  A pattern is a syntax tree; every pattern literal of the source is written out below as
  such a tree, piece by piece. Matching is the backtracking search of ECMAScript: a
  matcher maps a state (the rest of the input and the captures so far) to the list of
  all states it can end in, in the order in which backtracking tries them. The first
  element of that list is the match \<open>RegExp.prototype.exec\<close> reports.
\<close>

datatype greed = Greedy | Lazy

datatype re =
    Chr char
  | Cls "char \<Rightarrow> bool"
  | Seq re re
  | Alt re re
  | Rep0 greed re
  | Opt greed re
  | Grp nat re
  | Bol
  | Eol
  | Eps

type_synonym caps = "nat \<rightharpoonup> string"
type_synonym mstate = "string \<times> caps"

primrec groups :: "re \<Rightarrow> nat list" where
  "groups (Chr c) = []"
| "groups (Cls p) = []"
| "groups (Seq a b) = groups a @ groups b"
| "groups (Alt a b) = groups a @ groups b"
| "groups (Rep0 g r) = groups r"
| "groups (Opt g r) = groups r"
| "groups (Grp i r) = i # groups r"
| "groups Bol = []"
| "groups Eol = []"
| "groups Eps = []"

text \<open>Every iteration of a quantifier starts with the captures of its body undefined.\<close>

definition clear :: "nat list \<Rightarrow> caps \<Rightarrow> caps" where
  "clear js k = (\<lambda>i. if i \<in> set js then None else k i)"

text \<open>An iteration of a quantifier that consumes nothing is rejected.\<close>

definition progress :: "mstate \<Rightarrow> mstate \<Rightarrow> bool" where
  "progress st st' = (length (fst st') < length (fst st))"

text \<open>
  \<open>iter f g n st\<close> repeats the body \<open>f\<close> from \<open>st\<close>. Each iteration consumes at least
  one character, so \<open>n = length (fst st)\<close> iterations are all there can be.
\<close>

fun iter :: "(mstate \<Rightarrow> mstate list) \<Rightarrow> greed \<Rightarrow> nat \<Rightarrow> mstate \<Rightarrow> mstate list" where
  "iter f g 0 st = [st]"
| "iter f g (Suc n) st =
     (let more = concat (map (iter f g n) (filter (progress st) (f st)))
      in case g of Greedy \<Rightarrow> more @ [st] | Lazy \<Rightarrow> st # more)"

text \<open>\<open>ms n r st\<close>: \<open>n\<close> is the length of the whole input, which \<open>^\<close> needs.\<close>

fun ms :: "nat \<Rightarrow> re \<Rightarrow> mstate \<Rightarrow> mstate list" where
  "ms n (Chr c) (s, k) = (case s of [] \<Rightarrow> [] | x # xs \<Rightarrow> if x = c then [(xs, k)] else [])"
| "ms n (Cls p) (s, k) = (case s of [] \<Rightarrow> [] | x # xs \<Rightarrow> if p x then [(xs, k)] else [])"
| "ms n (Seq a b) st = concat (map (ms n b) (ms n a st))"
| "ms n (Alt a b) st = ms n a st @ ms n b st"
| "ms n (Rep0 g r) (s, k) =
     iter (\<lambda>(s', k'). ms n r (s', clear (groups r) k')) g (length s) (s, k)"
| "ms n (Opt g r) (s, k) =
     (let one = filter (progress (s, k)) (ms n r (s, clear (groups r) k))
      in case g of Greedy \<Rightarrow> one @ [(s, k)] | Lazy \<Rightarrow> (s, k) # one)"
| "ms n (Grp i r) (s, k) =
     map (\<lambda>(s', k'). (s', k'(i \<mapsto> take (length s - length s') s))) (ms n r (s, k))"
| "ms n Bol (s, k) = (if length s = n then [(s, k)] else [])"
| "ms n Eol (s, k) = (if s = [] then [(s, k)] else [])"
| "ms n Eps st = [st]"

text \<open>Pattern syntax: a literal string, a sequence, \<open>r+\<close>, and the character classes.\<close>

definition str :: "string \<Rightarrow> re" where
  "str s = foldr (\<lambda>c r. Seq (Chr c) r) s Eps"

definition seqs :: "re list \<Rightarrow> re" where
  "seqs rs = foldr Seq rs Eps"

definition Rep1 :: "greed \<Rightarrow> re \<Rightarrow> re" where
  "Rep1 g r = Seq r (Rep0 g r)"

definition oneOf :: "string \<Rightarrow> char \<Rightarrow> bool" where
  "oneOf cs c = (c \<in> set cs)"

definition noneOf :: "string \<Rightarrow> char \<Rightarrow> bool" where
  "noneOf cs c = (c \<notin> set cs)"

definition quote :: "char \<Rightarrow> bool" where
  "quote = oneOf [CHR 0x27, CHR 0x22]"

definition notQuote :: "char \<Rightarrow> bool" where
  "notQuote = noneOf [CHR 0x27, CHR 0x22]"

definition wordChar :: "char \<Rightarrow> bool" where
  "wordChar = oneOf ''abcdefghijklmnopqrstuvwxyzABCDEFGHIJKLMNOPQRSTUVWXYZ0123456789_''"

definition anyChar :: "char \<Rightarrow> bool" where
  "anyChar c = True"

definition dot :: "char \<Rightarrow> bool" where
  "dot = noneOf [CHR 0x0A, CHR 0x0D]"

definition sp0 :: re where "sp0 = Rep0 Greedy (Cls space)"
definition sp1 :: re where "sp1 = Rep1 Greedy (Cls space)"

text \<open>\<open>exec\<close> at one start position: the first end state, if any.\<close>

definition exec_at :: "nat \<Rightarrow> re \<Rightarrow> string \<Rightarrow> mstate option" where
  "exec_at n r s = (case ms n r (s, Map.empty) of [] \<Rightarrow> None | st # _ \<Rightarrow> Some st)"

text \<open>
  A match is the matched text with its captures. \<open>search\<close> is \<open>s.match(r)\<close> for a
  pattern without the \<open>g\<close> flag: the leftmost match; it also returns the text before and
  after the match, for \<open>replace\<close>.
\<close>

type_synonym rmatch = "string \<times> caps"

fun search :: "nat \<Rightarrow> re \<Rightarrow> string \<Rightarrow> (string \<times> rmatch \<times> string) option" where
  "search n r [] =
     (case exec_at n r [] of None \<Rightarrow> None | Some (s', k) \<Rightarrow> Some ([], ([], k), []))"
| "search n r (c # cs) =
     (case exec_at n r (c # cs) of
        Some (s', k) \<Rightarrow> Some ([], (take (length (c # cs) - length s') (c # cs), k), s')
      | None \<Rightarrow>
          (case search n r cs of
             None \<Rightarrow> None
           | Some (pre, m, post) \<Rightarrow> Some (c # pre, m, post)))"

definition match :: "re \<Rightarrow> string \<Rightarrow> rmatch option" where
  "match r s = map_option (\<lambda>(pre, m, post). m) (search (length s) r s)"

text \<open>\<open>s.replace(r, repl)\<close>, \<open>r\<close> without the \<open>g\<close> flag, \<open>repl\<close> a plain string.\<close>

definition replace :: "re \<Rightarrow> string \<Rightarrow> string \<Rightarrow> string" where
  "replace r repl s =
     (case search (length s) r s of None \<Rightarrow> s | Some (pre, m, post) \<Rightarrow> pre @ repl @ post)"

text \<open>
  \<open>s.matchAll(r)\<close>, \<open>r\<close> with the \<open>g\<close> flag: the matches from left to right, each search
  starting where the last match ended, one character further after an empty match.
  \<open>skip\<close> counts the characters still covered by the last match.
\<close>

fun scan :: "nat \<Rightarrow> re \<Rightarrow> nat \<Rightarrow> string \<Rightarrow> rmatch list" where
  "scan n r skip [] =
     (if skip = 0 then (case exec_at n r [] of None \<Rightarrow> [] | Some (s', k) \<Rightarrow> [([], k)])
      else [])"
| "scan n r skip (c # cs) =
     (if skip > 0 then scan n r (skip - 1) cs
      else case exec_at n r (c # cs) of
             None \<Rightarrow> scan n r 0 cs
           | Some (s', k) \<Rightarrow>
               (take (length (c # cs) - length s') (c # cs), k)
                 # scan n r (length (c # cs) - length s' - 1) cs)"

definition matchAll :: "re \<Rightarrow> string \<Rightarrow> rmatch list" where
  "matchAll r s = scan (length s) r 0 s"

text \<open>\<open>s.replace(r, repl)\<close>, \<open>r\<close> with the \<open>g\<close> flag.\<close>

fun replace_scan :: "nat \<Rightarrow> re \<Rightarrow> string \<Rightarrow> nat \<Rightarrow> string \<Rightarrow> string" where
  "replace_scan n r repl skip [] =
     (if skip = 0 then (case exec_at n r [] of None \<Rightarrow> [] | Some st \<Rightarrow> repl) else [])"
| "replace_scan n r repl skip (c # cs) =
     (if skip > 0 then replace_scan n r repl (skip - 1) cs
      else case exec_at n r (c # cs) of
             None \<Rightarrow> c # replace_scan n r repl 0 cs
           | Some (s', k) \<Rightarrow>
               (if length s' = length (c # cs) then repl @ c # replace_scan n r repl 0 cs
                else repl @ replace_scan n r repl (length (c # cs) - length s' - 1) cs))"

definition replaceAll :: "re \<Rightarrow> string \<Rightarrow> string \<Rightarrow> string" where
  "replaceAll r repl s = replace_scan (length s) r repl 0 s"

text \<open>
  \<open>s.split(r)\<close> for a pattern without capture groups. \<open>acc\<close> is the piece being
  collected, reversed. A match that ends where the piece starts (an empty match there)
  does not split.
\<close>

fun split_scan :: "nat \<Rightarrow> re \<Rightarrow> string \<Rightarrow> nat \<Rightarrow> string \<Rightarrow> string list" where
  "split_scan n r acc skip [] = [rev acc]"
| "split_scan n r acc skip (c # cs) =
     (if skip > 0 then split_scan n r acc (skip - 1) cs
      else case exec_at n r (c # cs) of
             None \<Rightarrow> split_scan n r (c # acc) 0 cs
           | Some (s', k) \<Rightarrow>
               (if length s' = length (c # cs) then
                  (if acc = [] then split_scan n r [c] 0 cs
                   else rev acc # split_scan n r [c] 0 cs)
                else rev acc # split_scan n r [] (length (c # cs) - length s' - 1) cs))"

definition split :: "re \<Rightarrow> string \<Rightarrow> string list" where
  "split r s =
     (if s = [] then (case exec_at 0 r [] of None \<Rightarrow> [[]] | Some st \<Rightarrow> [])
      else split_scan (length s) r [] 0 s)"

text \<open>The value of capture group \<open>i\<close>, and the test \<open>m[i] || d\<close>.\<close>

definition grp :: "rmatch \<Rightarrow> nat \<Rightarrow> string option" where
  "grp m i = snd m i"

definition grp_or :: "rmatch \<Rightarrow> nat \<Rightarrow> string \<Rightarrow> string" where
  "grp_or m i d = (case snd m i of None \<Rightarrow> d | Some v \<Rightarrow> if v = [] then d else v)"

text \<open>A capture group that takes part in every match of its pattern.\<close>

definition grp_str :: "rmatch \<Rightarrow> nat \<Rightarrow> string" where
  "grp_str m i = (case snd m i of None \<Rightarrow> [] | Some v \<Rightarrow> v)"

text \<open>
  A call either returns a value or throws. \<open>js_all\<close> runs the calls of a loop in order:
  the first one that throws ends the loop, and the exception is the outcome of the whole.
\<close>

datatype 'a js = Returns 'a | Throws

definition js_map :: "('a \<Rightarrow> 'b) \<Rightarrow> 'a js \<Rightarrow> 'b js" where
  "js_map f x = (case x of Throws \<Rightarrow> Throws | Returns v \<Rightarrow> Returns (f v))"

fun js_all :: "'a js list \<Rightarrow> 'a list js" where
  "js_all [] = Returns []"
| "js_all (x # xs) =
     (case x of
        Throws \<Rightarrow> Throws
      | Returns v \<Rightarrow> (case js_all xs of Throws \<Rightarrow> Throws | Returns vs \<Rightarrow> Returns (v # vs)))"

text \<open>
  A pattern built at run time, \<open>new RegExp(source)\<close>, is read by the constructor of the
  runtime, which throws a \<open>SyntaxError\<close> when \<open>source\<close> is no pattern. A \<open>regexp\<close> stands
  for \<open>subject.match(new RegExp(source))\<close>: given the source and the subject, it throws
  or returns the match, \<open>None\<close> for \<open>null\<close>.
\<close>

type_synonym regexp = "string \<Rightarrow> string \<Rightarrow> rmatch option js"

text \<open>\<open>array.find(p)\<close> followed by an assignment to the element found.\<close>

fun update_first :: "('a \<Rightarrow> bool) \<Rightarrow> ('a \<Rightarrow> 'a) \<Rightarrow> 'a list \<Rightarrow> 'a list" where
  "update_first p f [] = []"
| "update_first p f (x # xs) = (if p x then f x # xs else x # update_first p f xs)"

text \<open>
  A property read \<open>obj[key]\<close> on an object literal also finds the members every object
  inherits from \<open>Object.prototype\<close>.
\<close>

definition Object_prototype_members :: "string list" where
  "Object_prototype_members =
     [''constructor'', ''__proto__'', ''hasOwnProperty'', ''isPrototypeOf'',
      ''propertyIsEnumerable'', ''toLocaleString'', ''toString'', ''valueOf'',
      ''__defineGetter__'', ''__defineSetter__'', ''__lookupGetter__'', ''__lookupSetter__'']"

section \<open>The project model\<close>

text \<open>
  \<open>extractLaravelInfo\<close> reads every model, controller and route file into a unit
  \<open>{name, path, content}\<close> and derives the relationships from the model units.
\<close>

record source_unit =
  name :: string
  path :: string
  content :: string

record relationship =
  sourceModel :: string
  relationshipType :: string
  relationshipName :: string
  targetModel :: string

record projectInfo =
  pname :: string
  version :: string
  models :: "source_unit list"
  controllers :: "source_unit list"
  services :: "source_unit list"
  routeFiles :: "source_unit list"
  relationships :: "relationship list"

subsection \<open>parseModelRelationships\<close>

definition backslash :: char where "backslash = CHR 0x5C"

definition relationHead :: "string \<Rightarrow> re list" where
  "relationHead kind =
     [str ''public'', sp1, str ''function'', sp1, Grp 1 (Rep1 Greedy (Cls wordChar)), sp0,
      Chr CHR ''('', sp0, Chr CHR '')'', sp0, Chr CHR ''{'', sp0, str ''return'', sp1,
      Opt Greedy (Chr CHR ''$''), str ''this->'', str kind, sp0, Chr CHR ''('']"

text \<open>\<open>/public\s+function\s+(\w+)\s*\(\s*\)\s*{\s*return\s+\$?this->KIND\s*\(\s*([^,)]+)/g\<close>\<close>

definition relationRe :: "string \<Rightarrow> re" where
  "relationRe kind = seqs (relationHead kind @ [sp0, Grp 2 (Rep1 Greedy (Cls (noneOf '',)'')))])"

text \<open>\<open>/public\s+function\s+(\w+)\s*\(\s*\)\s*{\s*return\s+\$?this->morphTo\s*\(/g\<close>\<close>

definition morphToRe :: re where
  "morphToRe = seqs (relationHead ''morphTo'')"

definition relationshipPatterns :: "(string \<times> re) list" where
  "relationshipPatterns =
     [(''hasOne'', relationRe ''hasOne''),
      (''hasMany'', relationRe ''hasMany''),
      (''belongsTo'', relationRe ''belongsTo''),
      (''belongsToMany'', relationRe ''belongsToMany''),
      (''morphTo'', morphToRe),
      (''morphMany'', relationRe ''morphMany''),
      (''morphOne'', relationRe ''morphOne'')]"

text \<open>\<open>match[2] ? match[2].replace(/['"]/g, "").split("\\").pop() : "Unknown"\<close>\<close>

definition relatedModelOf :: "rmatch \<Rightarrow> string" where
  "relatedModelOf m =
     (case grp m 2 of
        None \<Rightarrow> ''Unknown''
      | Some t \<Rightarrow> if t = [] then ''Unknown''
                  else last (split_char backslash [] (replaceAll (Cls quote) [] t)))"

definition relationshipOf :: "source_unit \<Rightarrow> string \<Rightarrow> rmatch \<Rightarrow> relationship" where
  "relationshipOf model kind m =
     \<lparr>sourceModel = name model, relationshipType = kind,
      relationshipName = grp_str m 1, targetModel = relatedModelOf m\<rparr>"

definition parseModelRelationships :: "source_unit list \<Rightarrow> relationship list" where
  "parseModelRelationships ms' =
     concat (map (\<lambda>model.
       concat (map (\<lambda>(kind, regex). map (relationshipOf model kind) (matchAll regex (content model)))
                   relationshipPatterns)) ms')"

section \<open>The ERD generator (erd.js)\<close>

subsection \<open>Types of attributes\<close>

definition inferAttributeType :: "string \<Rightarrow> string" where
  "inferAttributeType attrName =
     (if attrName = ''id'' \<or> endsWith attrName ''_id'' then ''int''
      else if includes_s attrName ''email'' then ''string''
      else if includes_s attrName ''password'' then ''string''
      else if includes_s attrName ''date'' \<or> includes_s attrName ''time'' then ''datetime''
      else if includes_s attrName ''is_'' \<or> includes_s attrName ''has_'' then ''boolean''
      else if includes_s attrName ''count'' \<or> includes_s attrName ''amount''
              \<or> includes_s attrName ''price'' \<or> includes_s attrName ''total'' then ''float''
      else if includes_s attrName ''uuid'' then ''string''
      else ''string'')"

definition typeMap :: "(string \<times> string) list" where
  "typeMap =
     [(''integer'', ''int''), (''int'', ''int''), (''float'', ''float''), (''double'', ''float''),
      (''decimal'', ''float''), (''string'', ''string''), (''boolean'', ''boolean''),
      (''bool'', ''boolean''), (''object'', ''json''), (''array'', ''json''), (''json'', ''json''),
      (''date'', ''datetime''), (''datetime'', ''datetime''), (''timestamp'', ''datetime''),
      (''uuid'', ''string'')]"

text \<open>
  The value of \<open>typeMap[castType.toLowerCase()] || "string"\<close>: a type name from the
  table, the default, or an inherited member of the table object (every value of the
  table and every inherited member is truthy).
\<close>

datatype erd_type = TypeName string | Inherited string

definition mapCastTypeToErdType :: "string \<Rightarrow> erd_type" where
  "mapCastTypeToErdType castType =
     (let key = toLowerCase castType
      in case map_of typeMap key of
           Some t \<Rightarrow> TypeName t
         | None \<Rightarrow> if key \<in> set Object_prototype_members then Inherited key
                   else TypeName ''string'')"

text \<open>How a template literal prints the type.\<close>

definition show_type :: "erd_type \<Rightarrow> string" where
  "show_type t =
     (case t of
        TypeName s \<Rightarrow> s
      | Inherited key \<Rightarrow>
          if key = ''__proto__'' then ''[object Object]''
          else if key = ''constructor'' then ''function Object() { [native code] }''
          else ''function '' @ key @ ''() { [native code] }'')"

subsection \<open>Names of models\<close>

text \<open>
  \<open>cleanModelName\<close>: \<open>/^.*[\\\/]/\<close>, \<open>/::class$/\<close>, \<open>/^App\\Models\\/\<close> and
  \<open>/^['"]+|['"]+$/g\<close> are removed in this order, then the name is lower-cased.
\<close>

definition namespaceRe :: re where
  "namespaceRe = seqs [Bol, Rep0 Greedy (Cls dot), Cls (oneOf [backslash, CHR ''/''])]"

definition classSuffixRe :: re where
  "classSuffixRe = seqs [str ''::class'', Eol]"

definition appModelsRe :: re where
  "appModelsRe = seqs [Bol, str ''App'', Chr backslash, str ''Models'', Chr backslash]"

definition outerQuotesRe :: re where
  "outerQuotesRe =
     Alt (seqs [Bol, Rep1 Greedy (Cls quote)]) (seqs [Rep1 Greedy (Cls quote), Eol])"

definition cleanModelName :: "string \<Rightarrow> string" where
  "cleanModelName modelName =
     toLowerCase
       (replaceAll outerQuotesRe []
         (replace appModelsRe []
           (replace classSuffixRe []
             (replace namespaceRe [] modelName))))"

subsection \<open>Foreign keys\<close>

record foreignKey =
  fk_name :: string
  fk_references :: string

type_synonym fkmap = "string \<rightharpoonup> foreignKey list"

definition fk_get :: "string \<Rightarrow> fkmap \<Rightarrow> foreignKey list" where
  "fk_get modelName fks = (case fks modelName of None \<Rightarrow> [] | Some l \<Rightarrow> l)"

definition fk_push :: "string \<Rightarrow> foreignKey \<Rightarrow> fkmap \<Rightarrow> fkmap" where
  "fk_push modelName fk fks = fks(modelName \<mapsto> fk_get modelName fks @ [fk])"

text \<open>\<open>/belongsTo\(\s*([^,)]+)(?:,\s*['"]([^'"]+)['"])?\s*\)/g\<close>\<close>

definition belongsToRe :: re where
  "belongsToRe =
     seqs [str ''belongsTo('', sp0, Grp 1 (Rep1 Greedy (Cls (noneOf '',)''))),
           Opt Greedy (seqs [Chr CHR '','', sp0, Cls quote, Grp 2 (Rep1 Greedy (Cls notQuote)),
                             Cls quote]),
           sp0, Chr CHR '')'']"

text \<open>\<open>/['"]([^'"]+_id)['"]/g\<close>\<close>

definition fkLiteralRe :: re where
  "fkLiteralRe = seqs [Cls quote, Grp 1 (seqs [Rep1 Greedy (Cls notQuote), str ''_id'']), Cls quote]"

definition addBelongsTo :: "string \<Rightarrow> fkmap \<Rightarrow> rmatch \<Rightarrow> fkmap" where
  "addBelongsTo modelName fks m =
     (let relatedModel = cleanModelName (grp_str m 1);
          foreignKeyName = grp_or m 2 (relatedModel @ ''_id'')
      in fk_push modelName \<lparr>fk_name = foreignKeyName, fk_references = relatedModel\<rparr> fks)"

definition addKeyLiteral :: "string \<Rightarrow> fkmap \<Rightarrow> rmatch \<Rightarrow> fkmap" where
  "addKeyLiteral modelName fks m =
     (let foreignKeyName = grp_str m 1;
          referencedModel = replace_str foreignKeyName ''_id'' [];
          fks' = fks(modelName \<mapsto> fk_get modelName fks)
      in if list_ex (\<lambda>fk. fk_name fk = foreignKeyName) (fk_get modelName fks') then fks'
         else fk_push modelName
                \<lparr>fk_name = foreignKeyName, fk_references = referencedModel\<rparr> fks')"

definition extractForeignKeys :: "source_unit \<Rightarrow> fkmap \<Rightarrow> fkmap" where
  "extractForeignKeys model foreignKeys =
     (let modelName = toLowerCase (name model);
          fks1 = foldl (addBelongsTo modelName) foreignKeys (matchAll belongsToRe (content model))
      in foldl (addKeyLiteral modelName) fks1 (matchAll fkLiteralRe (content model)))"

subsection \<open>Attributes\<close>

record attribute =
  aname :: string
  atype :: erd_type
  isPrimaryKey :: bool
  isForeignKey :: bool
  references :: "string option"

text \<open>The attribute both the fillable list and the casts add for a new name.\<close>

definition declaredAttribute :: "string \<Rightarrow> erd_type \<Rightarrow> attribute" where
  "declaredAttribute attrName t =
     \<lparr>aname = attrName, atype = t, isPrimaryKey = (attrName = ''id''),
      isForeignKey = endsWith attrName ''_id'',
      references = (if endsWith attrName ''_id'' then Some (replace_str attrName ''_id'' [])
                    else None)\<rparr>"

text \<open>\<open>/protected\s+\$fillable\s*=\s*\[([\s\S]*?)\]/\<close>\<close>

definition fillableRe :: re where
  "fillableRe =
     seqs [str ''protected'', sp1, str ''$fillable'', sp0, Chr CHR ''='', sp0, Chr CHR ''['',
           Grp 1 (Rep0 Lazy (Cls anyChar)), Chr CHR '']'']"

text \<open>\<open>/'([^']+)'/g\<close>\<close>

definition quotedRe :: re where
  "quotedRe = seqs [Chr (CHR 0x27), Grp 1 (Rep1 Greedy (Cls (noneOf [CHR 0x27]))), Chr (CHR 0x27)]"

text \<open>\<open>/protected\s+\$casts\s*=\s*\[([\s\S]*?)\]/\<close> and the same with braces.\<close>

definition castsBracketRe :: re where
  "castsBracketRe =
     seqs [str ''protected'', sp1, str ''$casts'', sp0, Chr CHR ''='', sp0, Chr CHR ''['',
           Grp 1 (Rep0 Lazy (Cls anyChar)), Chr CHR '']'']"

definition castsBraceRe :: re where
  "castsBraceRe =
     seqs [str ''protected'', sp1, str ''$casts'', sp0, Chr CHR ''='', sp0, Chr CHR ''{'',
           Grp 1 (Rep0 Lazy (Cls anyChar)), Chr CHR ''}'']"

text \<open>\<open>/'([^']+)'\s*=>\s*'([^']+)'/g\<close>\<close>

definition castEntryRe :: re where
  "castEntryRe =
     seqs [Chr (CHR 0x27), Grp 1 (Rep1 Greedy (Cls (noneOf [CHR 0x27]))), Chr (CHR 0x27), sp0,
           str ''=>'', sp0,
           Chr (CHR 0x27), Grp 2 (Rep1 Greedy (Cls (noneOf [CHR 0x27]))), Chr (CHR 0x27)]"

text \<open>\<open>/protected\s+\$primaryKey\s*=\s*'([^']+)'/\<close>\<close>

definition primaryKeyRe :: re where
  "primaryKeyRe =
     seqs [str ''protected'', sp1, str ''$primaryKey'', sp0, Chr CHR ''='', sp0,
           Chr (CHR 0x27), Grp 1 (Rep1 Greedy (Cls (noneOf [CHR 0x27]))), Chr (CHR 0x27)]"

definition fillableAttributes :: "string \<Rightarrow> attribute list" where
  "fillableAttributes text =
     (case match fillableRe text of
        None \<Rightarrow> []
      | Some fillableMatch \<Rightarrow>
          map (\<lambda>attr. let attrName = replaceAll (Chr (CHR 0x27)) [] (fst attr)
                      in declaredAttribute attrName (TypeName (inferAttributeType attrName)))
              (matchAll quotedRe (grp_str fillableMatch 1)))"

definition addCast :: "attribute list \<Rightarrow> rmatch \<Rightarrow> attribute list" where
  "addCast attributes entry =
     (let attrName = grp_str entry 1; castType = grp_str entry 2
      in if list_ex (\<lambda>a. aname a = attrName) attributes
         then update_first (\<lambda>a. aname a = attrName)
                (\<lambda>a. a\<lparr>atype := mapCastTypeToErdType castType\<rparr>) attributes
         else attributes @ [declaredAttribute attrName (mapCastTypeToErdType castType)])"

definition castsMatchOf :: "string \<Rightarrow> rmatch option" where
  "castsMatchOf text =
     (case match castsBracketRe text of Some m \<Rightarrow> Some m | None \<Rightarrow> match castsBraceRe text)"

definition applyCasts :: "string \<Rightarrow> attribute list \<Rightarrow> attribute list" where
  "applyCasts text attributes =
     (case castsMatchOf text of
        None \<Rightarrow> attributes
      | Some castsMatch \<Rightarrow> foldl addCast attributes (matchAll castEntryRe (grp_str castsMatch 1)))"

definition applyPrimaryKey :: "string \<Rightarrow> attribute list \<Rightarrow> attribute list" where
  "applyPrimaryKey text attributes =
     (case match primaryKeyRe text of
        None \<Rightarrow> attributes
      | Some primaryKeyMatch \<Rightarrow>
          (let pkName = grp_str primaryKeyMatch 1;
               marked =
                 (if list_ex (\<lambda>a. aname a = pkName) attributes
                  then update_first (\<lambda>a. aname a = pkName) (\<lambda>a. a\<lparr>isPrimaryKey := True\<rparr>)
                         attributes
                  else attributes @
                         [\<lparr>aname = pkName, atype = TypeName ''int'', isPrimaryKey = True,
                           isForeignKey = False, references = None\<rparr>])
           in if pkName \<noteq> ''id''
              then update_first (\<lambda>a. aname a = ''id'' \<and> isPrimaryKey a)
                     (\<lambda>a. a\<lparr>isPrimaryKey := False\<rparr>) marked
              else marked))"

definition addForeignKey :: "attribute list \<Rightarrow> foreignKey \<Rightarrow> attribute list" where
  "addForeignKey attributes fk =
     (if list_ex (\<lambda>a. aname a = fk_name fk) attributes
      then update_first (\<lambda>a. aname a = fk_name fk)
             (\<lambda>a. a\<lparr>isForeignKey := True, references := Some (fk_references fk)\<rparr>) attributes
      else attributes @
             [\<lparr>aname = fk_name fk, atype = TypeName ''int'', isPrimaryKey = False,
               isForeignKey = True, references = Some (fk_references fk)\<rparr>])"

definition extractModelAttributes :: "source_unit \<Rightarrow> fkmap \<Rightarrow> attribute list" where
  "extractModelAttributes model foreignKeys =
     (let modelName = toLowerCase (name model);
          declared = applyPrimaryKey (content model)
                       (applyCasts (content model) (fillableAttributes (content model)))
      in case foreignKeys modelName of
           None \<Rightarrow> declared
         | Some fks \<Rightarrow> foldl addForeignKey declared fks)"

subsection \<open>The diagram text\<close>

definition relationshipMap :: "(string \<times> string \<times> string) list" where
  "relationshipMap =
     [(''hasOne'', ''||--o|'', ''1 to 1''),
      (''hasMany'', ''||--|{'', ''1 to many''),
      (''belongsTo'', ''}|--||'', ''belongs to''),
      (''belongsToMany'', ''}|--|{'', ''many to many''),
      (''morphTo'', ''}o--|{'', ''polymorphic''),
      (''morphOne'', ''||--o|'', ''morph one''),
      (''morphMany'', ''||--o{'', ''morph many''),
      (''hasManyThrough'', ''||..o{'', ''many through''),
      (''hasOneThrough'', ''||..o|'', ''one through'')]"

text \<open>
  \<open>getRelationshipDetails(rel).symbol\<close> as the template prints it: an inherited member
  of the table object has no \<open>symbol\<close>.
\<close>

definition relationshipSymbol :: "relationship \<Rightarrow> string" where
  "relationshipSymbol rel =
     (case map_of relationshipMap (relationshipType rel) of
        Some (symbol, label) \<Rightarrow> symbol
      | None \<Rightarrow> if relationshipType rel \<in> set Object_prototype_members then ''undefined''
                else ''||--o|'')"

definition dq :: string where "dq = [CHR 0x22]"

text \<open>One line of an entity block: type, name, key annotation, comment.\<close>

record column =
  ctype :: string
  cname :: string
  ckey :: string
  ccomment :: string

definition render_column :: "column \<Rightarrow> string" where
  "render_column c = ''    '' @ ctype c @ '' '' @ cname c @ ckey c @ ccomment c @ ''\<newline>''"

definition defaultIdColumn :: column where
  "defaultIdColumn =
     \<lparr>ctype = ''int'', cname = ''id'', ckey = '' PK'', ccomment = '' '' @ dq @ ''Primary key'' @ dq\<rparr>"

definition attributeColumn :: "attribute \<Rightarrow> column" where
  "attributeColumn attr =
     \<lparr>ctype = show_type (atype attr), cname = aname attr,
      ckey = (if isPrimaryKey attr then '' PK'' else if isForeignKey attr then '' FK'' else []),
      ccomment =
        (if isPrimaryKey attr then '' '' @ dq @ ''Primary key'' @ dq
         else if isForeignKey attr
         then '' '' @ dq @ ''References ''
                @ (case references attr of None \<Rightarrow> ''null'' | Some r \<Rightarrow> r) @ dq
         else [])\<rparr>"

definition plainColumn :: "string \<Rightarrow> string \<Rightarrow> column" where
  "plainColumn t n = \<lparr>ctype = t, cname = n, ckey = [], ccomment = []\<rparr>"

definition usesTimestamps :: "source_unit \<Rightarrow> bool" where
  "usesTimestamps model =
     (includes_s (content model) ''use HasFactory''
      \<or> includes_s (content model) ''use Timestamps''
      \<or> \<not> includes_s (content model) ''public $timestamps = false'')"

definition usesSoftDeletes :: "source_unit \<Rightarrow> bool" where
  "usesSoftDeletes model = includes_s (content model) ''use SoftDeletes''"

definition entityColumns :: "source_unit \<Rightarrow> attribute list \<Rightarrow> column list" where
  "entityColumns model attributes =
     (if list_ex isPrimaryKey attributes then [] else [defaultIdColumn])
     @ map attributeColumn attributes
     @ (if usesTimestamps model
        then [plainColumn ''datetime'' ''created_at'', plainColumn ''datetime'' ''updated_at'']
        else [])
     @ (if usesSoftDeletes model then [plainColumn ''datetime'' ''deleted_at''] else [])"

text \<open>The second pass of \<open>generateERD\<close>, for one model.\<close>

definition entityBlock :: "fkmap \<Rightarrow> source_unit \<Rightarrow> string" where
  "entityBlock foreignKeys model =
     (let attributes = extractModelAttributes model foreignKeys
      in if attributes \<noteq> []
         then ''  '' @ toLowerCase (name model) @ '' {\<newline>''
              @ concat (map render_column (entityColumns model attributes))
              @ ''  }\<newline>''
         else [])"

text \<open>The first pass: the names of the models and their foreign keys.\<close>

definition firstPass :: "string list \<times> fkmap \<Rightarrow> source_unit \<Rightarrow> string list \<times> fkmap" where
  "firstPass acc model =
     (let modelName = toLowerCase (name model)
      in if modelName \<in> set (fst acc) then acc
         else (fst acc @ [modelName], extractForeignKeys model (snd acc)))"

definition processedModels :: "projectInfo \<Rightarrow> string list" where
  "processedModels info = fst (foldl firstPass ([], Map.empty) (models info))"

definition collectedForeignKeys :: "projectInfo \<Rightarrow> fkmap" where
  "collectedForeignKeys info = snd (foldl firstPass ([], Map.empty) (models info))"

text \<open>The third pass, for one relationship.\<close>

definition relationLine :: "string list \<Rightarrow> relationship \<Rightarrow> string" where
  "relationLine processed rel =
     (let source = cleanModelName (sourceModel rel);
          target = cleanModelName (targetModel rel)
      in if source \<notin> set processed \<or> target \<notin> set processed then []
         else ''  '' @ source @ '' '' @ relationshipSymbol rel @ '' '' @ target
              @ '' : '' @ dq @ relationshipName rel @ dq @ ''\<newline>'')"

text \<open>\<open>mermaidContent\<close>, the text \<open>generateERD\<close> writes to \<open>database_erd.md\<close>.\<close>

definition generateERD :: "projectInfo \<Rightarrow> string" where
  "generateERD info =
     ''erDiagram\<newline>''
     @ concat (map (entityBlock (collectedForeignKeys info)) (models info))
     @ concat (map (relationLine (processedModels info)) (relationships info))"

section \<open>The UML generator (uml.js)\<close>

record property =
  prop_name :: string
  prop_type :: string
  dataType :: string

record method_sig =
  method_name :: string
  params :: string

record processedModel =
  pm_name :: string
  properties :: "property list"
  methods :: "method_sig list"
  namespace :: string
  tableName :: "string option"

record processedClass =
  pc_name :: string
  pc_methods :: "method_sig list"
  pc_namespace :: string

text \<open>\<open>/namespace\s+([^;]+);/\<close>\<close>

definition namespaceDeclRe :: re where
  "namespaceDeclRe =
     seqs [str ''namespace'', sp1, Grp 1 (Rep1 Greedy (Cls (noneOf '';''))), Chr CHR '';'']"

definition extractNamespace :: "string \<Rightarrow> string" where
  "extractNamespace text =
     (case match namespaceDeclRe text of None \<Rightarrow> [] | Some m \<Rightarrow> grp_str m 1)"

text \<open>
  \<open>/protected\s+\$casts\s*=\s*\[([\s\S]*?)\]|protected\s+\$casts\s*=\s*\{([\s\S]*?)\}/\<close>
\<close>

definition castsEitherRe :: re where
  "castsEitherRe =
     Alt (seqs [str ''protected'', sp1, str ''$casts'', sp0, Chr CHR ''='', sp0, Chr CHR ''['',
                Grp 1 (Rep0 Lazy (Cls anyChar)), Chr CHR '']''])
         (seqs [str ''protected'', sp1, str ''$casts'', sp0, Chr CHR ''='', sp0, Chr CHR ''{'',
                Grp 2 (Rep0 Lazy (Cls anyChar)), Chr CHR ''}''])"

text \<open>\<open>/protected\s+\$table\s*=\s*['"]([^'"]+)['"]/\<close>\<close>

definition tableRe :: re where
  "tableRe =
     seqs [str ''protected'', sp1, str ''$table'', sp0, Chr CHR ''='', sp0,
           Cls quote, Grp 1 (Rep1 Greedy (Cls notQuote)), Cls quote]"

text \<open>\<open>/public\s+function\s+(\w+)\s*\(([^)]*)\)/g\<close>\<close>

definition methodRe :: re where
  "methodRe =
     seqs [str ''public'', sp1, str ''function'', sp1, Grp 1 (Rep1 Greedy (Cls wordChar)), sp0,
           Chr CHR ''('', Grp 2 (Rep0 Greedy (Cls (noneOf '')''))), Chr CHR '')'']"

text \<open>
  \<open>new RegExp(`['"]${property}['"]\\s*=>\\s*['"]([^'"]+)['"]`)\<close>: the property name is
  spliced into the source of the pattern. \<open>castPatternSource\<close> is that source.
\<close>

definition castPatternSource :: "string \<Rightarrow> string" where
  "castPatternSource property =
     ''['' @ [CHR 0x27, CHR 0x22] @ '']'' @ property @ ''['' @ [CHR 0x27, CHR 0x22] @ '']''
     @ [backslash] @ ''s*=>'' @ [backslash] @ ''s*''
     @ ''['' @ [CHR 0x27, CHR 0x22] @ '']'' @ ''([^'' @ [CHR 0x27, CHR 0x22] @ '']+)''
     @ ''['' @ [CHR 0x27, CHR 0x22] @ '']''"

text \<open>
  A property name made of letters, digits and underscores stands for itself in the
  source: the pattern is then \<open>castOfPropertyRe\<close>.
\<close>

definition castOfPropertyRe :: "string \<Rightarrow> re" where
  "castOfPropertyRe property =
     seqs [Cls quote, str property, Cls quote, sp0, str ''=>'', sp0,
           Cls quote, Grp 1 (Rep1 Greedy (Cls notQuote)), Cls quote]"

text \<open>
  \<open>castsContent.match(new RegExp(...))\<close>. In a property name with any other character
  that character may be pattern syntax: the source made from \<open>pric.\<close> matches the key
  \<open>price\<close>, the one made from \<open>a(\<close> is no pattern at all. What the runtime does with
  such a source is the parameter \<open>regExp\<close>.
\<close>

definition castMatch :: "regexp \<Rightarrow> string \<Rightarrow> string \<Rightarrow> rmatch option js" where
  "castMatch regExp property castsContent =
     (if list_all wordChar property then Returns (match (castOfPropertyRe property) castsContent)
      else regExp (castPatternSource property) castsContent)"

text \<open>
  The pattern is built only when the model has a \<open>$casts\<close> block. The result
  \<open>typeMatch[1]\<close> of a match whose first group is undefined prints as no type, like \<open>""\<close>.
\<close>

definition extractDataTypeFromCasts :: "regexp \<Rightarrow> string \<Rightarrow> rmatch option \<Rightarrow> string js" where
  "extractDataTypeFromCasts regExp prop castsMatch =
     (case castsMatch of
        None \<Rightarrow> Returns []
      | Some cm \<Rightarrow>
          (let castsContent = grp_or cm 1 (grp_or cm 2 [])
           in js_map (\<lambda>typeMatch. case typeMatch of None \<Rightarrow> [] | Some tm \<Rightarrow> grp_str tm 1)
                (castMatch regExp prop castsContent)))"

text \<open>The array \<open>fillable\<close> of \<open>generateModelData\<close>.\<close>

definition fillable :: "string \<Rightarrow> string list" where
  "fillable text =
     (case match fillableRe text of
        None \<Rightarrow> []
      | Some fillableMatch \<Rightarrow>
          filter (\<lambda>item. item \<noteq> [])
            (map (\<lambda>item. replaceAll (Cls quote) [] (trim item))
               (split_char CHR '','' [] (grp_str fillableMatch 1))))"

definition fillableProperties :: "regexp \<Rightarrow> string \<Rightarrow> property list js" where
  "fillableProperties regExp text =
     js_all (map (\<lambda>prop.
                    js_map (\<lambda>t. \<lparr>prop_name = prop, prop_type = ''fillable'', dataType = t\<rparr>)
                      (extractDataTypeFromCasts regExp prop (match castsEitherRe text)))
               (fillable text))"

definition relationBuilders :: "string list" where
  "relationBuilders =
     [''hasOne'', ''hasMany'', ''belongsTo'', ''belongsToMany'', ''morphTo'', ''morphMany'',
      ''morphOne'']"

text \<open>The test under "Skip relationship methods as they'll be shown in relationships".\<close>

definition skippedAsRelationship :: "string \<Rightarrow> string \<Rightarrow> bool" where
  "skippedAsRelationship text methodName =
     list_ex (\<lambda>rel. includes_s text (''this->'' @ rel)
                    \<and> includes_s text (''function '' @ methodName)) relationBuilders"

definition methodOf :: "rmatch \<Rightarrow> method_sig" where
  "methodOf m = \<lparr>method_name = grp_str m 1, params = trim (grp_str m 2)\<rparr>"

text \<open>
  \<open>generateModelData\<close>. An exception of \<open>new RegExp\<close> is caught nowhere: it ends the
  loop over the models and \<open>generateUML\<close> itself.
\<close>

definition generateModelData :: "regexp \<Rightarrow> source_unit list \<Rightarrow> processedModel list js" where
  "generateModelData regExp ms' =
     js_all (map (\<lambda>model.
       js_map (\<lambda>props.
         \<lparr>pm_name = name model,
          properties = props,
          methods = map methodOf
                      (filter (\<lambda>m. \<not> skippedAsRelationship (content model) (grp_str m 1))
                         (matchAll methodRe (content model))),
          namespace = extractNamespace (content model),
          tableName = map_option (\<lambda>m. grp_str m 1) (match tableRe (content model))\<rparr>)
         (fillableProperties regExp (content model))) ms')"

text \<open>\<open>generateControllerData\<close> and \<open>generateServiceData\<close> are the same function.\<close>

definition generateControllerData :: "source_unit list \<Rightarrow> processedClass list" where
  "generateControllerData cs =
     map (\<lambda>controller.
       \<lparr>pc_name = name controller,
        pc_methods = map methodOf (matchAll methodRe (content controller)),
        pc_namespace = extractNamespace (content controller)\<rparr>) cs"

definition generateServiceData :: "source_unit list \<Rightarrow> processedClass list" where
  "generateServiceData ss = generateControllerData ss"

text \<open>
  \<open>diagramData\<close>, without its \<open>directories\<close> index (built from \<open>filePath\<close>, a field the
  units do not have).
\<close>

record diagramData =
  dd_models :: "processedModel list"
  dd_controllers :: "processedClass list"
  dd_services :: "processedClass list"
  dd_relationships :: "relationship list"

definition diagramDataOf :: "regexp \<Rightarrow> projectInfo \<Rightarrow> diagramData js" where
  "diagramDataOf regExp info =
     js_map (\<lambda>ms'. \<lparr>dd_models = ms',
                     dd_controllers = generateControllerData (controllers info),
                     dd_services = generateServiceData (services info),
                     dd_relationships = relationships info\<rparr>)
       (generateModelData regExp (models info))"

definition methodLine :: "method_sig \<Rightarrow> string" where
  "methodLine m = ''    +'' @ method_name m @ ''('' @ params m @ '')\<newline>''"

definition modelClass :: "processedModel \<Rightarrow> string" where
  "modelClass model =
     ''  class '' @ pm_name model @ '' {\<newline>''
     @ (case tableName model of
          None \<Rightarrow> []
        | Some t \<Rightarrow> if t = [] then [] else ''    <<Table: '' @ t @ ''>>\<newline>'')
     @ concat (map (\<lambda>prop. ''    +'' @ prop_name prop
                      @ (if dataType prop = [] then [] else '': '' @ dataType prop)
                      @ ''\<newline>'') (properties model))
     @ concat (map methodLine (methods model))
     @ ''  }\<newline>''"

definition stereotypedClass :: "string \<Rightarrow> processedClass \<Rightarrow> string" where
  "stereotypedClass stereotype c =
     ''  class '' @ pc_name c @ '' {\<newline>''
     @ ''    <<'' @ stereotype @ ''>>\<newline>''
     @ concat (map methodLine (pc_methods c))
     @ ''  }\<newline>''"

definition arrowOf :: "string \<Rightarrow> string" where
  "arrowOf relationshipType' =
     (if relationshipType' = ''hasOne'' then ''-->''
      else if relationshipType' = ''hasMany'' then ''--*''
      else if relationshipType' = ''belongsTo'' then ''<--''
      else if relationshipType' = ''belongsToMany'' then ''<--*''
      else ''-->'')"

text \<open>The line the relationship loop of \<open>generateMermaidDiagram\<close> adds for \<open>rel\<close>.\<close>

definition relationshipEdge :: "relationship \<Rightarrow> string" where
  "relationshipEdge rel =
     ''  '' @ replace classSuffixRe [] (sourceModel rel) @ '' '' @ arrowOf (relationshipType rel)
     @ '' '' @ replace classSuffixRe [] (targetModel rel)
     @ '' : '' @ toLowerCase (relationshipName rel) @ ''\<newline>''"

text \<open>
  \<open>generateMermaidDiagram(diagramData, {entityTypes})\<close>; \<open>generateUML\<close> never passes a
  \<open>directory\<close>, so that filter is off.
\<close>

definition generateMermaidDiagram :: "diagramData \<Rightarrow> string list \<Rightarrow> string" where
  "generateMermaidDiagram dd entityTypes =
     ''classDiagram\<newline>''
     @ (if ''models'' \<in> set entityTypes then concat (map modelClass (dd_models dd)) else [])
     @ (if ''controllers'' \<in> set entityTypes
        then concat (map (stereotypedClass ''Controller'') (dd_controllers dd)) else [])
     @ (if ''services'' \<in> set entityTypes
        then concat (map (stereotypedClass ''Service'') (dd_services dd)) else [])
     @ (if ''models'' \<in> set entityTypes
        then concat (map relationshipEdge (dd_relationships dd)) else [])"

text \<open>
  \<open>generateUML\<close>: the data it writes to \<open>diagram_data.json\<close> and the two texts it writes
  to \<open>models_diagram.md\<close> and \<open>full_diagram.md\<close>. The data is built before anything is
  written, so when \<open>generateModelData\<close> throws, none of the three files is written.
\<close>

record umlFiles =
  diagram_data :: diagramData
  models_diagram :: string
  full_diagram :: string

definition generateUML :: "regexp \<Rightarrow> projectInfo \<Rightarrow> umlFiles js" where
  "generateUML regExp info =
     js_map (\<lambda>dd. \<lparr>diagram_data = dd,
                    models_diagram = generateMermaidDiagram dd [''models''],
                    full_diagram =
                      generateMermaidDiagram dd [''models'', ''controllers'', ''services'']\<rparr>)
       (diagramDataOf regExp info)"

section \<open>The sequence-diagram generator (sequence.js)\<close>

text \<open>
  One entry of the manifest per controller action. The entry's \<open>timestamp\<close>, read from
  the system clock, and the diagram text written to the entry's file are left out.
\<close>

record diagramInfo =
  di_id :: string
  di_name :: string
  di_controller :: string
  di_method :: string
  di_type :: string
  di_description :: string
  di_fileName :: string
  di_models :: "string list"

text \<open>\<open>/public\s+function\s+(\w+)\s*\([^)]*\)/g\<close>\<close>

definition actionRe :: re where
  "actionRe =
     seqs [str ''public'', sp1, str ''function'', sp1, Grp 1 (Rep1 Greedy (Cls wordChar)), sp0,
           Chr CHR ''('', Rep0 Greedy (Cls (noneOf '')'')), Chr CHR '')'']"

text \<open>
  \<open>new RegExp(`public\\s+function\\s+${methodName}\\s*\\([^)]*\\)\\s*{([\\s\\S]*?)\\}`, "m")\<close>;
  \<open>methodName\<close> was matched by \<open>\w+\<close>, so it stands for itself in the pattern.
\<close>

definition actionBodyRe :: "string \<Rightarrow> re" where
  "actionBodyRe methodName =
     seqs [str ''public'', sp1, str ''function'', sp1, str methodName, sp0,
           Chr CHR ''('', Rep0 Greedy (Cls (noneOf '')'')), Chr CHR '')'', sp0, Chr CHR ''{'',
           Grp 1 (Rep0 Lazy (Cls anyChar)), Chr CHR ''}'']"

text \<open>\<open>/Controller$/\<close>\<close>

definition controllerSuffixRe :: re where
  "controllerSuffixRe = seqs [str ''Controller'', Eol]"

text \<open>The chain of comparisons that sets \<open>sequenceType\<close>.\<close>

definition sequenceTypeOf :: "string \<Rightarrow> string" where
  "sequenceTypeOf methodName =
     (if methodName = ''index'' \<or> methodName = ''all'' \<or> methodName = ''list'' then ''list''
      else if methodName = ''show'' \<or> methodName = ''view'' \<or> methodName = ''get'' then ''show''
      else if methodName = ''store'' \<or> methodName = ''create'' \<or> methodName = ''add''
      then ''create''
      else if methodName = ''update'' \<or> methodName = ''edit'' then ''update''
      else if methodName = ''destroy'' \<or> methodName = ''delete'' \<or> methodName = ''remove''
      then ''delete''
      else ''generic'')"

definition usedModelsOf :: "projectInfo \<Rightarrow> source_unit \<Rightarrow> string \<Rightarrow> string list" where
  "usedModelsOf info controller methodName =
     (case match (actionBodyRe methodName) (content controller) of
        None \<Rightarrow> []
      | Some methodContent \<Rightarrow>
          (case grp methodContent 1 of
             None \<Rightarrow> []
           | Some body \<Rightarrow>
               if body = [] then []
               else map name (filter (\<lambda>model. includes_s body (name model)) (models info))))"

definition getMethodDescription :: "string \<Rightarrow> string \<Rightarrow> string \<Rightarrow> string" where
  "getMethodDescription type' controller method' =
     (if type' = ''list'' then ''Retrieves a collection of resources from '' @ controller
      else if type' = ''show'' then ''Retrieves a specific resource from '' @ controller
      else if type' = ''create'' then ''Creates a new resource in '' @ controller
      else if type' = ''update'' then ''Updates an existing resource in '' @ controller
      else if type' = ''delete'' then ''Removes a resource from '' @ controller
      else ''Handles '' @ method' @ '' operation in '' @ controller)"

definition diagramInfoOf :: "projectInfo \<Rightarrow> source_unit \<Rightarrow> string \<Rightarrow> diagramInfo" where
  "diagramInfoOf info controller methodName =
     (let sequenceType = sequenceTypeOf methodName
      in \<lparr>di_id = name controller @ ''-'' @ methodName,
          di_name = name controller @ ''::'' @ methodName,
          di_controller = replace controllerSuffixRe [] (name controller),
          di_method = methodName,
          di_type = sequenceType,
          di_description = getMethodDescription sequenceType (name controller) methodName,
          di_fileName = name controller @ ''_'' @ methodName @ ''.md'',
          di_models = usedModelsOf info controller methodName\<rparr>)"

text \<open>The action names of a controller, in order, and those that get a diagram.\<close>

definition actionNames :: "source_unit \<Rightarrow> string list" where
  "actionNames controller = map (\<lambda>m. grp_str m 1) (matchAll actionRe (content controller))"

definition skippedAction :: "string \<Rightarrow> bool" where
  "skippedAction methodName = (methodName \<in> set [''__construct'', ''middleware'', ''authorize''])"

text \<open>\<open>diagrams\<close>, the list \<open>generateSequenceDiagrams\<close> writes into the manifest.\<close>

definition generateSequenceDiagrams :: "projectInfo \<Rightarrow> diagramInfo list" where
  "generateSequenceDiagrams info =
     concat (map (\<lambda>controller.
       map (diagramInfoOf info controller)
         (filter (\<lambda>methodName. \<not> skippedAction methodName) (actionNames controller)))
       (controllers info))"

section \<open>The API documentation generator (api.js)\<close>

record endpoint =
  emethod :: string
  epath :: string
  handler :: string
  routeName :: "string option"
  description :: string
  routeFile :: string
  egroup :: "string option"

definition generateRouteDescription :: "string \<Rightarrow> string \<Rightarrow> string" where
  "generateRouteDescription method' path' =
     (let parts = filter (\<lambda>p. p \<noteq> []) (split_char CHR ''/'' [] path');
          resource = (if parts = [] then ''resource'' else last parts)
      in if method' = ''GET''
         then (if includes_s path' ''/{'' \<or> includes_s path' ''/:''
               then ''Retrieve a specific '' @ resource else ''List '' @ resource)
         else if method' = ''POST'' then ''Create a new '' @ resource
         else if method' = ''PUT'' \<or> method' = ''PATCH'' then ''Update a specific '' @ resource
         else if method' = ''DELETE'' then ''Delete a specific '' @ resource
         else method' @ '' '' @ path')"

text \<open>
  \<open>/Route::(get|post|put|patch|delete|options|any)\(\s*['"]([^'"]+)['"]\s*,\s*\<close>
  \<open>(?:(?:\[?([^\]]+)\]?|['"]([^'"]+)['"]))\<close>
  \<open>(?:(?:->name\(['"]([^'"]+)['"]\))|(?:->middleware\([^)]+\))?)?/g\<close>
\<close>

definition standardRouteRe :: re where
  "standardRouteRe =
     seqs [str ''Route::'',
           Grp 1 (Alt (str ''get'') (Alt (str ''post'') (Alt (str ''put'') (Alt (str ''patch'')
                 (Alt (str ''delete'') (Alt (str ''options'') (str ''any''))))))),
           Chr CHR ''('', sp0, Cls quote, Grp 2 (Rep1 Greedy (Cls notQuote)), Cls quote, sp0,
           Chr CHR '','', sp0,
           Alt (seqs [Opt Greedy (Chr CHR ''[''), Grp 3 (Rep1 Greedy (Cls (noneOf '']''))),
                      Opt Greedy (Chr CHR '']'')])
               (seqs [Cls quote, Grp 4 (Rep1 Greedy (Cls notQuote)), Cls quote]),
           Opt Greedy
             (Alt (seqs [str ''->name('', Cls quote, Grp 5 (Rep1 Greedy (Cls notQuote)), Cls quote,
                         Chr CHR '')''])
                  (Opt Greedy (seqs [str ''->middleware('', Rep1 Greedy (Cls (noneOf '')'')),
                                     Chr CHR '')''])))]"

definition standardEndpoint :: "source_unit \<Rightarrow> rmatch \<Rightarrow> endpoint" where
  "standardEndpoint routeFile' m =
     (let method' = toUpperCase (grp_str m 1); path' = grp_str m 2
      in \<lparr>emethod = method', epath = path',
          handler = grp_or m 3 (grp_or m 4 ''Closure''),
          routeName = (case grp m 5 of None \<Rightarrow> None | Some v \<Rightarrow> if v = [] then None else Some v),
          description = generateRouteDescription method' path',
          routeFile = name routeFile', egroup = None\<rparr>)"

definition extractStandardRoutes :: "source_unit \<Rightarrow> endpoint list \<Rightarrow> endpoint list" where
  "extractStandardRoutes routeFile' endpoints =
     endpoints @ map (standardEndpoint routeFile') (matchAll standardRouteRe (content routeFile'))"

text \<open>
  \<open>/Route::resource\(\s*['"]([^'"]+)['"]\s*,\s*['"]?([^,)"']+)['"]?\<close>
  \<open>(?:,\s*\[?['"]?only['"]?\s*=>\s*\[([^\]]+)\]\]?)?\<close>
  \<open>(?:,\s*\[?['"]?except['"]?\s*=>\s*\[([^\]]+)\]\]?)?/g\<close>,
  and the same pattern for \<open>Route::apiResource\<close>.
\<close>

definition actionListRe :: "string \<Rightarrow> nat \<Rightarrow> re" where
  "actionListRe keyword i =
     seqs [Chr CHR '','', sp0, Opt Greedy (Chr CHR ''[''), Opt Greedy (Cls quote), str keyword,
           Opt Greedy (Cls quote), sp0, str ''=>'', sp0, Chr CHR ''['',
           Grp i (Rep1 Greedy (Cls (noneOf '']''))), Chr CHR '']'', Opt Greedy (Chr CHR '']'')]"

definition resourceDeclRe :: "string \<Rightarrow> re" where
  "resourceDeclRe keyword =
     seqs [str ''Route::'', str keyword, Chr CHR ''('', sp0, Cls quote,
           Grp 1 (Rep1 Greedy (Cls notQuote)), Cls quote, sp0, Chr CHR '','', sp0,
           Opt Greedy (Cls quote),
           Grp 2 (Rep1 Greedy (Cls (noneOf [CHR '','', CHR '')'', CHR 0x22, CHR 0x27]))),
           Opt Greedy (Cls quote),
           Opt Greedy (actionListRe ''only'' 3),
           Opt Greedy (actionListRe ''except'' 4)]"

text \<open>\<open>/[,\s]+/\<close>\<close>

definition listSeparatorRe :: re where
  "listSeparatorRe = Rep1 Greedy (Cls (\<lambda>c. c = CHR '','' \<or> space c))"

text \<open>
  \<open>m[i] ? m[i].split(/[,\s]+/).map(m => m.replace(/['"]/g, "").trim()).filter(Boolean) : null\<close>
\<close>

definition actionList :: "rmatch \<Rightarrow> nat \<Rightarrow> string list option" where
  "actionList m i =
     (case grp m i of
        None \<Rightarrow> None
      | Some t \<Rightarrow>
          if t = [] then None
          else Some (filter (\<lambda>a. a \<noteq> [])
                       (map (\<lambda>a. trim (replaceAll (Cls quote) [] a)) (split listSeparatorRe t))))"

record resourceRoute =
  rr_method :: string
  rr_suffix :: string
  rr_action :: string
  rr_description :: string

definition singularName :: "string \<Rightarrow> string" where
  "singularName path' = (if endsWith path' ''s'' then butlast path' else path')"

definition resourceRoutes :: "string \<Rightarrow> resourceRoute list" where
  "resourceRoutes path' =
     [\<lparr>rr_method = ''GET'', rr_suffix = [], rr_action = ''index'',
       rr_description = ''List all '' @ path'\<rparr>,
      \<lparr>rr_method = ''GET'', rr_suffix = ''/create'', rr_action = ''create'',
       rr_description = ''Show form to create a new '' @ singularName path'\<rparr>,
      \<lparr>rr_method = ''POST'', rr_suffix = [], rr_action = ''store'',
       rr_description = ''Store a new '' @ singularName path'\<rparr>,
      \<lparr>rr_method = ''GET'', rr_suffix = ''/{id}'', rr_action = ''show'',
       rr_description = ''Show a specific '' @ singularName path'\<rparr>,
      \<lparr>rr_method = ''GET'', rr_suffix = ''/{id}/edit'', rr_action = ''edit'',
       rr_description = ''Show form to edit '' @ singularName path'\<rparr>,
      \<lparr>rr_method = ''PUT/PATCH'', rr_suffix = ''/{id}'', rr_action = ''update'',
       rr_description = ''Update a specific '' @ singularName path'\<rparr>,
      \<lparr>rr_method = ''DELETE'', rr_suffix = ''/{id}'', rr_action = ''destroy'',
       rr_description = ''Delete a specific '' @ singularName path'\<rparr>]"

definition apiResourceRoutes :: "string \<Rightarrow> resourceRoute list" where
  "apiResourceRoutes path' =
     [\<lparr>rr_method = ''GET'', rr_suffix = [], rr_action = ''index'',
       rr_description = ''List all '' @ path'\<rparr>,
      \<lparr>rr_method = ''POST'', rr_suffix = [], rr_action = ''store'',
       rr_description = ''Store a new '' @ singularName path'\<rparr>,
      \<lparr>rr_method = ''GET'', rr_suffix = ''/{id}'', rr_action = ''show'',
       rr_description = ''Show a specific '' @ singularName path'\<rparr>,
      \<lparr>rr_method = ''PUT/PATCH'', rr_suffix = ''/{id}'', rr_action = ''update'',
       rr_description = ''Update a specific '' @ singularName path'\<rparr>,
      \<lparr>rr_method = ''DELETE'', rr_suffix = ''/{id}'', rr_action = ''destroy'',
       rr_description = ''Delete a specific '' @ singularName path'\<rparr>]"

text \<open>The test that makes the loop over the conventional routes \<open>continue\<close>.\<close>

definition excluded :: "string list option \<Rightarrow> string list option \<Rightarrow> string \<Rightarrow> bool" where
  "excluded only except action =
     ((case only of None \<Rightarrow> False | Some l \<Rightarrow> action \<notin> set l)
      \<or> (case except of None \<Rightarrow> False | Some l \<Rightarrow> action \<in> set l))"

text \<open>The endpoints one declaration expands to.\<close>

definition expandResource ::
  "string \<Rightarrow> resourceRoute list \<Rightarrow> string \<Rightarrow> string \<Rightarrow> string \<Rightarrow> string list option
     \<Rightarrow> string list option \<Rightarrow> endpoint list" where
  "expandResource label routes fileName path' handler' only except =
     map (\<lambda>route.
           \<lparr>emethod = rr_method route, epath = ''/'' @ path' @ rr_suffix route,
            handler = handler' @ ''@'' @ rr_action route, routeName = None,
            description = rr_description route, routeFile = fileName, egroup = Some label\<rparr>)
         (filter (\<lambda>route. \<not> excluded only except (rr_action route)) routes)"

definition extractResourceRoutes :: "source_unit \<Rightarrow> endpoint list \<Rightarrow> endpoint list" where
  "extractResourceRoutes routeFile' endpoints =
     endpoints @
     concat (map (\<lambda>m. expandResource ''Resource'' (resourceRoutes (grp_str m 1)) (name routeFile')
                         (grp_str m 1) (grp_str m 2) (actionList m 3) (actionList m 4))
                 (matchAll (resourceDeclRe ''resource'') (content routeFile')))"

definition extractApiResourceRoutes :: "source_unit \<Rightarrow> endpoint list \<Rightarrow> endpoint list" where
  "extractApiResourceRoutes routeFile' endpoints =
     endpoints @
     concat (map (\<lambda>m. expandResource ''API Resource'' (apiResourceRoutes (grp_str m 1))
                         (name routeFile') (grp_str m 1) (grp_str m 2)
                         (actionList m 3) (actionList m 4))
                 (matchAll (resourceDeclRe ''apiResource'') (content routeFile')))"

text \<open>\<open>/Route::group\(\[\s*'prefix'\s*=>\s*['"]([^'"]+)['"]/g\<close>\<close>

definition routeGroupRe :: re where
  "routeGroupRe =
     seqs [str ''Route::group(['', sp0, Chr (CHR 0x27), str ''prefix'', Chr (CHR 0x27), sp0,
           str ''=>'', sp0, Cls quote, Grp 1 (Rep1 Greedy (Cls notQuote)), Cls quote]"

definition tagGroup :: "string \<Rightarrow> string \<Rightarrow> endpoint \<Rightarrow> endpoint" where
  "tagGroup fileName prefix' e =
     (if routeFile e = fileName \<and> startsWith (epath e) (''/'' @ prefix')
      then e\<lparr>egroup := Some prefix'\<rparr> else e)"

definition extractRouteGroups :: "source_unit \<Rightarrow> endpoint list \<Rightarrow> endpoint list" where
  "extractRouteGroups routeFile' endpoints =
     foldl (\<lambda>es m. map (tagGroup (name routeFile') (grp_str m 1)) es) endpoints
       (matchAll routeGroupRe (content routeFile'))"

text \<open>The endpoint list \<open>generateAPIDocumentation\<close> hands to \<open>generateApiDocs\<close>.\<close>

definition extractEndpoints :: "projectInfo \<Rightarrow> endpoint list" where
  "extractEndpoints info =
     foldl (\<lambda>endpoints routeFile'.
              extractRouteGroups routeFile'
                (extractApiResourceRoutes routeFile'
                  (extractResourceRoutes routeFile'
                    (extractStandardRoutes routeFile' endpoints))))
       [] (routeFiles info)"

section \<open>Notions used to state the properties\<close>

text \<open>
  The shape of source text a relationship pattern matches: a public function \<open>nm\<close> with
  an empty parameter list whose body starts with \<open>return $this->kind(\<close> (the \<open>$\<close> is
  optional); \<open>w1\<close> to \<open>w8\<close> are runs of white space.
\<close>

definition relationMethodText :: "string \<Rightarrow> string \<Rightarrow> string \<Rightarrow> bool" where
  "relationMethodText kind nm t =
     (\<exists>w1 w2 w3 w4 w5 w6 w7 d w8 rest.
        t = ''public'' @ w1 @ ''function'' @ w2 @ nm @ w3 @ ''('' @ w4 @ '')'' @ w5 @ ''{'' @ w6
              @ ''return'' @ w7 @ d @ ''this->'' @ kind @ w8 @ ''('' @ rest
        \<and> list_all space w1 \<and> w1 \<noteq> [] \<and> list_all space w2 \<and> w2 \<noteq> []
        \<and> list_all wordChar nm \<and> nm \<noteq> []
        \<and> list_all space w3 \<and> list_all space w4 \<and> list_all space w5 \<and> list_all space w6
        \<and> list_all space w7 \<and> w7 \<noteq> [] \<and> (d = [] \<or> d = ''$'') \<and> list_all space w8)"

text \<open>
  The runtime rejects the pattern source made from one of the model's \<open>$fillable\<close>
  entries: the model has a \<open>$casts\<close> block, the entry has a character other than a
  letter, a digit or an underscore, and \<open>new RegExp\<close> throws on the source.
\<close>

definition rejected :: "regexp \<Rightarrow> source_unit \<Rightarrow> bool" where
  "rejected regExp model =
     (case match castsEitherRe (content model) of
        None \<Rightarrow> False
      | Some cm \<Rightarrow>
          list_ex (\<lambda>prop. \<not> list_all wordChar prop
                     \<and> (case regExp (castPatternSource prop) (grp_or cm 1 (grp_or cm 2 [])) of
                          Throws \<Rightarrow> True
                        | Returns typeMatch \<Rightarrow> False))
            (fillable (content model)))"




section \<open>Sample projects\<close>

definition project :: "source_unit list \<Rightarrow> source_unit list \<Rightarrow> source_unit list \<Rightarrow> projectInfo" where
  "project ms' cs rs =
     \<lparr>pname = ''sample/app'', version = ''v10.0.0'', models = ms', controllers = cs,
      services = [], routeFiles = rs, relationships = parseModelRelationships ms'\<rparr>"

definition author_model :: source_unit where
  "author_model =
     \<lparr>name = ''Author'', path = ''app/Models/Author.php'',
      content = ''class Author extends Model { public function posts() { return $this->hasMany(Post::class); } }''\<rparr>"

definition author_posts :: relationship where
  "author_posts =
     \<lparr>sourceModel = ''Author'', relationshipType = ''hasMany'', relationshipName = ''posts'',
      targetModel = ''Post::class''\<rparr>"

definition user_model :: source_unit where
  "user_model =
     \<lparr>name = ''User'', path = ''app/Models/User.php'',
      content = ''class User extends Model { public function posts() { return $this->hasMany(Post::class); } public function fullName() { return $this->name; } }''\<rparr>"

definition tag_model :: source_unit where
  "tag_model =
     \<lparr>name = ''Tag'', path = ''app/Models/Tag.php'', content = ''class Tag extends Model { }''\<rparr>"





definition post_model :: source_unit where
  "post_model =
     \<lparr>name = ''Post'', path = ''app/Models/Post.php'',
      content = ''class Post extends Model { use HasFactory; public $timestamps = false; protected $fillable = ['title']; }''\<rparr>"

definition event_model :: source_unit where
  "event_model =
     \<lparr>name = ''Event'', path = ''app/Models/Event.php'',
      content = ''class Event extends Model { protected $casts = ['deleted_at' => 'datetime']; }''\<rparr>"

definition draft_model :: source_unit where
  "draft_model =
     \<lparr>name = ''Draft'', path = ''app/Models/Draft.php'',
      content = ''class Draft extends Model { public function post($id) { return $this->hasOne(Post::class); } public function tags() { return $this->hasManyThrough(Tag::class, Post::class); } }''\<rparr>"

definition post_controller :: source_unit where
  "post_controller =
     \<lparr>name = ''PostController'', path = ''app/Http/Controllers/PostController.php'',
      content = ''class PostController { public function store(Request $r) { return Post::destroy(1); } }''\<rparr>"





definition api_routes :: source_unit where
  "api_routes =
     \<lparr>name = ''api'', path = ''routes/api.php'',
      content = ''Route::group(['prefix' => 'admin'], function () { Route::get('admin/users', [UserController::class, 'index']); });''\<rparr>"

definition item_model :: source_unit where
  "item_model =
     \<lparr>name = ''Item'', path = ''app/Models/Item.php'',
      content = ''class Item extends Model { protected $fillable = ['a(']; protected $casts = ['a' => 'int']; public function posts() { return $this->hasMany(Post::class); } }''\<rparr>"

definition item_posts :: relationship where
  "item_posts =
     \<lparr>sourceModel = ''Item'', relationshipType = ''hasMany'', relationshipName = ''posts'',
      targetModel = ''Post::class''\<rparr>"

text \<open>
  The samples are run with a runtime that rejects every pattern source handed to it.
  Only \<open>Item\<close> hands it one, the source made from the \<open>$fillable\<close> entry \<open>a(\<close>, which
  is no pattern: its group is not closed. No other sample model has a \<open>$fillable\<close> entry
  with a character other than a letter, a digit or an underscore.
\<close>

definition no_other_source :: regexp where
  "no_other_source source subject = Throws"

definition library :: projectInfo where
  "library = project [author_model] [] []"


definition title_attribute :: attribute where
  "title_attribute =
     \<lparr>aname = ''title'', atype = TypeName ''string'', isPrimaryKey = False, isForeignKey = False,
      references = None\<rparr>"


section \<open>Invariants used in the proofs\<close>





text \<open>An endpoint whose path does not start with \<open>/\<close> has no group label.\<close>

definition untagged :: "endpoint list \<Rightarrow> bool" where
  "untagged es = (\<forall>e \<in> set es. \<not> startsWith (epath e) ''/'' \<longrightarrow> egroup e = None)"

section \<open>Properties of the runtime model\<close>

subsection \<open>String methods\<close>

lemma startsWith_prefix: "startsWith s p \<longleftrightarrow> prefix p s"
  by (induction s p rule: startsWith.induct) auto

lemma endsWith_suffix: "endsWith s p \<longleftrightarrow> suffix p s"
  by (simp add: endsWith_def startsWith_prefix suffix_to_prefix)

lemma includes_s_sublist: "includes_s s sub \<longleftrightarrow> sublist sub s"
  by (induction s) (simp_all add: sublist_Cons_right startsWith_prefix)

lemma toLowerCase_char_lower:
  "toLowerCase_char c \<notin> set ''ABCDEFGHIJKLMNOPQRSTUVWXYZ''"
  by (simp add: toLowerCase_char_def)

lemma toLowerCase_lower: "c \<in> set (toLowerCase s) \<Longrightarrow> c \<notin> set ''ABCDEFGHIJKLMNOPQRSTUVWXYZ''"
  using toLowerCase_char_lower by (auto simp: toLowerCase_def)

lemma inherited_lowercase_key:
  assumes "toLowerCase k \<in> set Object_prototype_members"
  shows "toLowerCase k = ''constructor'' \<or> toLowerCase k = ''__proto__''"
proof -
  have no: "c \<in> set ''ABCDEFGHIJKLMNOPQRSTUVWXYZ'' \<Longrightarrow> c \<notin> set (toLowerCase k)" for c
    using toLowerCase_lower by blast
  have "toLowerCase k \<noteq> ''hasOwnProperty''" using no[of "CHR ''O''"] by auto
  moreover have "toLowerCase k \<noteq> ''isPrototypeOf''" using no[of "CHR ''P''"] by auto
  moreover have "toLowerCase k \<noteq> ''propertyIsEnumerable''" using no[of "CHR ''I''"] by auto
  moreover have "toLowerCase k \<noteq> ''toLocaleString''" using no[of "CHR ''L''"] by auto
  moreover have "toLowerCase k \<noteq> ''toString''" using no[of "CHR ''S''"] by auto
  moreover have "toLowerCase k \<noteq> ''valueOf''" using no[of "CHR ''O''"] by auto
  moreover have "toLowerCase k \<noteq> ''__defineGetter__''" using no[of "CHR ''G''"] by auto
  moreover have "toLowerCase k \<noteq> ''__defineSetter__''" using no[of "CHR ''S''"] by auto
  moreover have "toLowerCase k \<noteq> ''__lookupGetter__''" using no[of "CHR ''G''"] by auto
  moreover have "toLowerCase k \<noteq> ''__lookupSetter__''" using no[of "CHR ''S''"] by auto
  ultimately show ?thesis using assms by (simp add: Object_prototype_members_def)
qed

subsection \<open>What a match of a pattern says about the text\<close>

lemma clear_Nil: "clear [] k = k"
  by (rule ext) (simp add: clear_def)

lemma ms_Chr_iff: "(s', k') \<in> set (ms n (Chr c) (s, k)) \<longleftrightarrow> s = c # s' \<and> k' = k"
  by (auto split: list.splits if_splits)

lemma ms_Cls_iff: "(s', k') \<in> set (ms n (Cls p) (s, k)) \<longleftrightarrow> (\<exists>x. s = x # s' \<and> p x) \<and> k' = k"
  by (auto split: list.splits if_splits)

lemma ms_Seq_iff:
  "st' \<in> set (ms n (Seq a b) st) \<longleftrightarrow> (\<exists>st1 \<in> set (ms n a st). st' \<in> set (ms n b st1))"
  by auto

lemma str_Cons: "str (c # t) = Seq (Chr c) (str t)"
  by (simp add: str_def)

lemma ms_str_iff: "(s', k') \<in> set (ms n (str t) (s, k)) \<longleftrightarrow> s = t @ s' \<and> k' = k"
proof (induction t arbitrary: s)
  case Nil
  show ?case by (auto simp: str_def)
next
  case (Cons c t)
  show ?case
  proof (cases s)
    case Nil
    then show ?thesis by (simp add: str_Cons)
  next
    case (Cons x xs)
    show ?thesis
    proof (cases "x = c")
      case True
      with Cons show ?thesis using Cons.IH[of xs] by (simp add: str_Cons)
    next
      case False
      with Cons show ?thesis by (simp add: str_Cons)
    qed
  qed
qed

lemma seqs_Cons: "seqs (a # rs) = Seq a (seqs rs)"
  by (simp add: seqs_def)

lemma ms_seqs_Nil_iff: "st' \<in> set (ms n (seqs []) st) \<longleftrightarrow> st' = st"
  by (auto simp: seqs_def)

lemma ms_seqs_Cons_iff:
  "st' \<in> set (ms n (seqs (a # rs)) st) \<longleftrightarrow> (\<exists>st1 \<in> set (ms n a st). st' \<in> set (ms n (seqs rs) st1))"
  by (simp only: seqs_Cons ms_Seq_iff)

lemma iter_Cls:
  "(s', k') \<in> set (iter (\<lambda>(t, j). ms n (Cls p) (t, clear [] j)) g m (s, k))
   \<Longrightarrow> \<exists>w. s = w @ s' \<and> list_all p w \<and> k' = k"
proof (induction m arbitrary: s k)
  case 0
  then show ?case by simp
next
  case (Suc m)
  from Suc.prems consider "(s', k') = (s, k)"
    | st1 where "st1 \<in> set (ms n (Cls p) (s, clear [] k))" "(s', k') \<in> set (iter (\<lambda>(t, j). ms n (Cls p) (t, clear [] j)) g m st1)"
    by (cases g) (auto simp: Let_def simp del: ms.simps)
  then show ?case
  proof cases
    case 1
    then show ?thesis by simp
  next
    case 2
    obtain s1 k1 where st1: "st1 = (s1, k1)" by (cases st1)
    from 2(1) st1 obtain x where x: "s = x # s1" "p x" "k1 = k"
      by (auto simp: ms_Cls_iff clear_Nil simp del: ms.simps)
    from Suc.IH[of s1 k1] 2(2) st1 obtain w where "s1 = w @ s'" "list_all p w" "k' = k1"
      by blast
    with x show ?thesis by (intro exI[of _ "x # w"]) simp
  qed
qed

lemma ms_Rep0_Cls:
  "(s', k') \<in> set (ms n (Rep0 g (Cls p)) (s, k)) \<Longrightarrow> \<exists>w. s = w @ s' \<and> list_all p w \<and> k' = k"
  using iter_Cls[of s' k' n p g "length s" s k] by simp

lemma ms_Rep1_Cls:
  "(s', k') \<in> set (ms n (Rep1 g (Cls p)) (s, k))
   \<Longrightarrow> \<exists>w. s = w @ s' \<and> list_all p w \<and> w \<noteq> [] \<and> k' = k"
proof -
  assume "(s', k') \<in> set (ms n (Rep1 g (Cls p)) (s, k))"
  then obtain s1 k1 where a: "(s1, k1) \<in> set (ms n (Cls p) (s, k))"
      and b: "(s', k') \<in> set (ms n (Rep0 g (Cls p)) (s1, k1))"
    unfolding Rep1_def ms_Seq_iff by auto
  from a obtain x where x: "s = x # s1" "p x" "k1 = k" by (auto simp: ms_Cls_iff simp del: ms.simps)
  from ms_Rep0_Cls[OF b] obtain w where "s1 = w @ s'" "list_all p w" "k' = k1" by blast
  with x show ?thesis by (intro exI[of _ "x # w"]) simp
qed

lemma ms_sp0: "(s', k') \<in> set (ms n sp0 (s, k)) \<Longrightarrow> \<exists>w. s = w @ s' \<and> list_all space w \<and> k' = k"
  unfolding sp0_def by (rule ms_Rep0_Cls)

lemma ms_sp1:
  "(s', k') \<in> set (ms n sp1 (s, k)) \<Longrightarrow> \<exists>w. s = w @ s' \<and> list_all space w \<and> w \<noteq> [] \<and> k' = k"
  unfolding sp1_def by (rule ms_Rep1_Cls)

lemma ms_Opt_Chr:
  "(s', k') \<in> set (ms n (Opt g (Chr c)) (s, k)) \<Longrightarrow> \<exists>w. s = w @ s' \<and> (w = [] \<or> w = [c]) \<and> k' = k"
  by (cases g) (auto simp: Let_def clear_Nil split: list.splits if_splits)

lemma ms_Grp_Rep1_Cls:
  "(s', k') \<in> set (ms n (Grp i (Rep1 g (Cls p))) (s, k))
   \<Longrightarrow> \<exists>w. s = w @ s' \<and> list_all p w \<and> w \<noteq> [] \<and> k' = k(i \<mapsto> w)"
proof -
  assume "(s', k') \<in> set (ms n (Grp i (Rep1 g (Cls p))) (s, k))"
  then obtain k1 where a: "(s', k1) \<in> set (ms n (Rep1 g (Cls p)) (s, k))"
    and k': "k' = k1(i \<mapsto> take (length s - length s') s)"
    by (auto simp del: ms.simps(3,5) simp: Rep1_def)
  from ms_Rep1_Cls[OF a] obtain w where "s = w @ s'" "list_all p w" "w \<noteq> []" "k1 = k" by blast
  with k' show ?thesis by (intro exI[of _ w]) simp
qed

lemma seqs_str:
  "(s', k') \<in> set (ms n (seqs (str t # rs)) (s, k))
   \<Longrightarrow> \<exists>s1. s = t @ s1 \<and> (s', k') \<in> set (ms n (seqs rs) (s1, k))"
  by (auto simp only: ms_seqs_Cons_iff ms_str_iff)

lemma seqs_Chr:
  "(s', k') \<in> set (ms n (seqs (Chr c # rs)) (s, k))
   \<Longrightarrow> \<exists>s1. s = [c] @ s1 \<and> (s', k') \<in> set (ms n (seqs rs) (s1, k))"
  by (auto simp only: ms_seqs_Cons_iff ms_Chr_iff append_Cons append_Nil)

lemma seqs_sp0:
  "(s', k') \<in> set (ms n (seqs (sp0 # rs)) (s, k))
   \<Longrightarrow> \<exists>w s1. s = w @ s1 \<and> list_all space w \<and> (s', k') \<in> set (ms n (seqs rs) (s1, k))"
  unfolding ms_seqs_Cons_iff by (auto dest!: ms_sp0 simp del: ms.simps)

lemma seqs_sp1:
  "(s', k') \<in> set (ms n (seqs (sp1 # rs)) (s, k))
   \<Longrightarrow> \<exists>w s1. s = w @ s1 \<and> list_all space w \<and> w \<noteq> []
         \<and> (s', k') \<in> set (ms n (seqs rs) (s1, k))"
  unfolding ms_seqs_Cons_iff by (auto dest!: ms_sp1 simp del: ms.simps)

lemma seqs_Opt_Chr:
  "(s', k') \<in> set (ms n (seqs (Opt g (Chr c) # rs)) (s, k))
   \<Longrightarrow> \<exists>w s1. s = w @ s1 \<and> (w = [] \<or> w = [c]) \<and> (s', k') \<in> set (ms n (seqs rs) (s1, k))"
  unfolding ms_seqs_Cons_iff by (auto dest!: ms_Opt_Chr simp del: ms.simps)

lemma seqs_Grp_Rep1_Cls:
  "(s', k') \<in> set (ms n (seqs (Grp i (Rep1 g (Cls p)) # rs)) (s, k))
   \<Longrightarrow> \<exists>w s1. s = w @ s1 \<and> list_all p w \<and> w \<noteq> []
         \<and> (s', k') \<in> set (ms n (seqs rs) (s1, k(i \<mapsto> w)))"
  unfolding ms_seqs_Cons_iff by (auto dest!: ms_Grp_Rep1_Cls simp del: ms.simps)

lemma relationHead_append:
  "relationHead kind @ rs =
     str ''public'' # sp1 # str ''function'' # sp1 # Grp 1 (Rep1 Greedy (Cls wordChar)) # sp0 #
     Chr CHR ''('' # sp0 # Chr CHR '')'' # sp0 # Chr CHR ''{'' # sp0 # str ''return'' # sp1 #
     Opt Greedy (Chr CHR ''$'') # str ''this->'' # str kind # sp0 # Chr CHR ''('' # rs"
  by (simp add: relationHead_def)

lemma relationHead_match:
  "(s', k') \<in> set (ms n (seqs (relationHead kind @ rs)) (s, k))
   \<Longrightarrow> \<exists>w1 w2 nm w3 w4 w5 w6 w7 d w8 s2.
         s = ''public'' @ w1 @ ''function'' @ w2 @ nm @ w3 @ ''('' @ w4 @ '')'' @ w5 @ ''{'' @ w6
               @ ''return'' @ w7 @ d @ ''this->'' @ kind @ w8 @ ''('' @ s2
         \<and> list_all space w1 \<and> w1 \<noteq> [] \<and> list_all space w2 \<and> w2 \<noteq> []
         \<and> list_all wordChar nm \<and> nm \<noteq> []
         \<and> list_all space w3 \<and> list_all space w4 \<and> list_all space w5 \<and> list_all space w6
         \<and> list_all space w7 \<and> w7 \<noteq> [] \<and> (d = [] \<or> d = ''$'') \<and> list_all space w8
         \<and> (s', k') \<in> set (ms n (seqs rs) (s2, k(1 \<mapsto> nm)))"
  apply (simp only: relationHead_append)
  apply (drule seqs_str, elim exE conjE)
  apply (drule seqs_sp1, elim exE conjE)
  apply (drule seqs_str, elim exE conjE)
  apply (drule seqs_sp1, elim exE conjE)
  apply (drule seqs_Grp_Rep1_Cls, elim exE conjE)
  apply (drule seqs_sp0, elim exE conjE)
  apply (drule seqs_Chr, elim exE conjE)
  apply (drule seqs_sp0, elim exE conjE)
  apply (drule seqs_Chr, elim exE conjE)
  apply (drule seqs_sp0, elim exE conjE)
  apply (drule seqs_Chr, elim exE conjE)
  apply (drule seqs_sp0, elim exE conjE)
  apply (drule seqs_str, elim exE conjE)
  apply (drule seqs_sp1, elim exE conjE)
  apply (drule seqs_Opt_Chr, elim exE conjE)
  apply (drule seqs_str, elim exE conjE)
  apply (drule seqs_str, elim exE conjE)
  apply (drule seqs_sp0, elim exE conjE)
  apply (drule seqs_Chr, elim exE conjE)
  apply hypsubst
  apply (intro exI conjI)
                 apply (rule refl)
                apply assumption+
  done

lemma relationMethodTextI:
  "t = ''public'' @ w1 @ ''function'' @ w2 @ nm @ w3 @ ''('' @ w4 @ '')'' @ w5 @ ''{'' @ w6
         @ ''return'' @ w7 @ d @ ''this->'' @ kind @ w8 @ ''('' @ rest
   \<Longrightarrow> list_all space w1 \<Longrightarrow> w1 \<noteq> [] \<Longrightarrow> list_all space w2 \<Longrightarrow> w2 \<noteq> []
   \<Longrightarrow> list_all wordChar nm \<Longrightarrow> nm \<noteq> []
   \<Longrightarrow> list_all space w3 \<Longrightarrow> list_all space w4 \<Longrightarrow> list_all space w5 \<Longrightarrow> list_all space w6
   \<Longrightarrow> list_all space w7 \<Longrightarrow> w7 \<noteq> [] \<Longrightarrow> d = [] \<or> d = ''$'' \<Longrightarrow> list_all space w8
   \<Longrightarrow> relationMethodText kind nm t"
  unfolding relationMethodText_def by blast

lemma morphTo_match:
  assumes "(s', k') \<in> set (ms n morphToRe (t, Map.empty))"
  shows "\<exists>nm. k' 1 = Some nm \<and> relationMethodText ''morphTo'' nm t"
proof -
  have "morphToRe = seqs (relationHead ''morphTo'' @ [])" by (simp add: morphToRe_def)
  with assms have "(s', k') \<in> set (ms n (seqs (relationHead ''morphTo'' @ [])) (t, Map.empty))"
    by simp
  from relationHead_match[OF this]
  obtain w1 w2 nm w3 w4 w5 w6 w7 d w8 s2 where
    t: "t = ''public'' @ w1 @ ''function'' @ w2 @ nm @ w3 @ ''('' @ w4 @ '')'' @ w5 @ ''{'' @ w6
               @ ''return'' @ w7 @ d @ ''this->'' @ ''morphTo'' @ w8 @ ''('' @ s2"
    and c: "list_all space w1" "w1 \<noteq> []" "list_all space w2" "w2 \<noteq> []"
       "list_all wordChar nm" "nm \<noteq> []"
       "list_all space w3" "list_all space w4" "list_all space w5" "list_all space w6"
       "list_all space w7" "w7 \<noteq> []" "d = [] \<or> d = ''$''" "list_all space w8"
    and r: "(s', k') \<in> set (ms n (seqs []) (s2, Map.empty(1 \<mapsto> nm)))"
    by blast
  from r have "k' = Map.empty(1 \<mapsto> nm)" by (simp add: ms_seqs_Nil_iff)
  then have "k' 1 = Some nm" by simp
  moreover have "relationMethodText ''morphTo'' nm t"
    by (rule relationMethodTextI[OF t c])
  ultimately show ?thesis by blast
qed

lemma relation_match:
  assumes "(s', k') \<in> set (ms n (relationRe kind) (t, Map.empty))"
  shows "\<exists>nm. k' 1 = Some nm \<and> relationMethodText kind nm t"
proof -
  from assms have
    "(s', k') \<in> set (ms n (seqs (relationHead kind @ [sp0, Grp 2 (Rep1 Greedy (Cls (noneOf '',)'')))]))
                     (t, Map.empty))"
    by (simp only: relationRe_def)
  from relationHead_match[OF this]
  obtain w1 w2 nm w3 w4 w5 w6 w7 d w8 s2 where
    t: "t = ''public'' @ w1 @ ''function'' @ w2 @ nm @ w3 @ ''('' @ w4 @ '')'' @ w5 @ ''{'' @ w6
               @ ''return'' @ w7 @ d @ ''this->'' @ kind @ w8 @ ''('' @ s2"
    and c: "list_all space w1" "w1 \<noteq> []" "list_all space w2" "w2 \<noteq> []"
       "list_all wordChar nm" "nm \<noteq> []"
       "list_all space w3" "list_all space w4" "list_all space w5" "list_all space w6"
       "list_all space w7" "w7 \<noteq> []" "d = [] \<or> d = ''$''" "list_all space w8"
    and r: "(s', k') \<in> set (ms n (seqs [sp0, Grp 2 (Rep1 Greedy (Cls (noneOf '',)'')))])
                              (s2, Map.empty(1 \<mapsto> nm)))"
    by blast
  from seqs_sp0[OF r] obtain s3 where
    "(s', k') \<in> set (ms n (seqs [Grp 2 (Rep1 Greedy (Cls (noneOf '',)'')))])
                       (s3, Map.empty(1 \<mapsto> nm)))"
    by blast
  from seqs_Grp_Rep1_Cls[OF this] obtain w s4 where
    "(s', k') \<in> set (ms n (seqs []) (s4, (Map.empty(1 \<mapsto> nm))(2 \<mapsto> w)))"
    by blast
  then have "k' = (Map.empty(1 \<mapsto> nm))(2 \<mapsto> w)" by (simp add: ms_seqs_Nil_iff)
  then have "k' 1 = Some nm" by simp
  moreover have "relationMethodText kind nm t"
    by (rule relationMethodTextI[OF t c])
  ultimately show ?thesis by blast
qed

lemma exec_at_Some: "exec_at n r s = Some st \<Longrightarrow> st \<in> set (ms n r (s, Map.empty))"
  by (simp add: exec_at_def split: list.splits)

lemma scan_Nil: "m \<in> set (scan n r skip []) \<Longrightarrow> \<exists>s'. exec_at n r [] = Some (s', snd m)"
  apply (cases "exec_at n r []")
   apply (cases "skip = 0")
    apply simp
   apply simp
  apply (case_tac a)
  apply (cases "skip = 0")
   apply simp
  apply simp
  done

lemma scan_Cons_skip: "skip > 0 \<Longrightarrow> scan n r skip (c # cs) = scan n r (skip - 1) cs"
  by simp

lemma scan_Cons_None:
  "exec_at n r (c # cs) = None \<Longrightarrow> scan n r 0 (c # cs) = scan n r 0 cs"
  by simp

lemma scan_Cons_Some:
  "exec_at n r (c # cs) = Some (s', k)
   \<Longrightarrow> scan n r 0 (c # cs)
       = (take (length (c # cs) - length s') (c # cs), k)
           # scan n r (length (c # cs) - length s' - 1) cs"
  by simp

lemma scan_sound:
  "m \<in> set (scan n r skip s)
   \<Longrightarrow> \<exists>pre t s'. s = pre @ t \<and> exec_at n r t = Some (s', snd m)"
proof (induction s arbitrary: skip)
  case Nil
  then have "\<exists>s'. exec_at n r [] = Some (s', snd m)" by (rule scan_Nil)
  then obtain s' where "exec_at n r [] = Some (s', snd m)" by blast
  then have "[] = [] @ [] \<and> exec_at n r [] = Some (s', snd m)" by simp
  then show ?case by (intro exI)
next
  case (Cons c cs)
  have later: "\<exists>pre t s'. c # cs = pre @ t \<and> exec_at n r t = Some (s', snd m)"
    if "m \<in> set (scan n r j cs)" for j
  proof -
    from Cons.IH[OF that] obtain pre t s' where "cs = pre @ t" "exec_at n r t = Some (s', snd m)"
      by blast
    then have "c # cs = (c # pre) @ t \<and> exec_at n r t = Some (s', snd m)" by simp
    then show ?thesis by blast
  qed
  show ?case
  proof (cases "skip > 0")
    case True
    with Cons.prems have "m \<in> set (scan n r (skip - 1) cs)"
      by (simp only: scan_Cons_skip)
    then show ?thesis by (rule later)
  next
    case False
    then have skip: "skip = 0" by simp
    show ?thesis
    proof (cases "exec_at n r (c # cs)")
      case None
      with Cons.prems skip have "m \<in> set (scan n r 0 cs)"
        by (simp only: scan_Cons_None)
      then show ?thesis by (rule later)
    next
      case (Some st)
      obtain s1 k1 where st: "st = (s1, k1)" by (cases st)
      from Cons.prems skip Some st
      have "m \<in> set ((take (length (c # cs) - length s1) (c # cs), k1)
                       # scan n r (length (c # cs) - length s1 - 1) cs)"
        by (simp only: scan_Cons_Some)
      then consider "m = (take (length (c # cs) - length s1) (c # cs), k1)"
        | "m \<in> set (scan n r (length (c # cs) - length s1 - 1) cs)"
        by (auto simp only: set_simps insert_iff)
      then show ?thesis
      proof cases
        case 1
        with Some st have "c # cs = [] @ (c # cs) \<and> exec_at n r (c # cs) = Some (s1, snd m)"
          by simp
        then show ?thesis by blast
      next
        case 2
        then show ?thesis by (rule later)
      qed
    qed
  qed
qed

lemma matchAll_sound:
  "m \<in> set (matchAll r s)
   \<Longrightarrow> \<exists>pre t s'. s = pre @ t \<and> (s', snd m) \<in> set (ms (length s) r (t, Map.empty))"
  unfolding matchAll_def by (blast dest: scan_sound exec_at_Some)

lemma pattern_match:
  assumes "(kind, regex) \<in> set relationshipPatterns"
    and "(s', k') \<in> set (ms n regex (t, Map.empty))"
  shows "kind \<in> set relationBuilders \<and> (\<exists>nm. k' 1 = Some nm \<and> relationMethodText kind nm t)"
proof -
  from assms(1) have "(regex = relationRe kind \<and> kind \<in> set relationBuilders)
      \<or> (regex = morphToRe \<and> kind = ''morphTo'')"
    unfolding relationshipPatterns_def relationBuilders_def
    by (elim set_ConsD[elim_format]) auto
  then consider "regex = relationRe kind" "kind \<in> set relationBuilders"
    | "regex = morphToRe" "kind = ''morphTo''"
    by blast
  then show ?thesis
  proof cases
    case 1
    with relation_match[of s' k' n kind t] assms(2) show ?thesis by simp
  next
    case 2
    with morphTo_match[of s' k' n t] assms(2) show ?thesis by (simp add: relationBuilders_def)
  qed
qed

subsection \<open>Exceptions\<close>

lemma js_map_Returns [simp]: "js_map f (Returns v) = Returns (f v)"
  by (simp add: js_map_def)

lemma js_map_Throws [simp]: "js_map f Throws = Throws"
  by (simp add: js_map_def)

lemma js_map_eq_Throws [simp]: "js_map f x = Throws \<longleftrightarrow> x = Throws"
  by (cases x) simp_all

lemma js_map_eq_Returns: "js_map f x = Returns w \<longleftrightarrow> (\<exists>v. x = Returns v \<and> w = f v)"
  by (cases x) auto

lemma js_all_map_Throws:
  "js_all (map (\<lambda>x. js_map (f x) (g x)) xs) = Throws \<longleftrightarrow> (\<exists>x \<in> set xs. g x = Throws)"
  by (induction xs) (auto simp: js_map_def split: js.splits)

lemma js_case_Throws: "(case x of Throws \<Rightarrow> True | Returns v \<Rightarrow> False) \<longleftrightarrow> x = Throws"
  by (cases x) simp_all

subsection \<open>The first end state of a match, and scanning\<close>

lemma ms_str_eq:
  "ms n (str t) (s, k) = (if prefix t s then [(drop (length t) s, k)] else [])"
proof (induction t arbitrary: s)
  case Nil
  show ?case by (simp add: str_def)
next
  case (Cons c t)
  have "str (c # t) = Seq (Chr c) (str t)" by (simp add: str_def)
  then show ?case using Cons by (cases s) auto
qed












lemma exec_at_str_Eol:
  "exec_at n (seqs [str x, Eol]) t = (if t = x then Some ([], Map.empty) else None)"
  by (auto simp: exec_at_def seqs_def ms_str_eq prefix_def)

lemma search_str_Eol:
  assumes "x \<noteq> []"
  shows "search n (seqs [str x, Eol]) s
   = (if suffix x s then Some (take (length s - length x) s, (x, Map.empty), []) else None)"
proof (induction s)
  case Nil
  show ?case using assms by (simp add: exec_at_str_Eol)
next
  case (Cons c cs)
  show ?case
  proof (cases "c # cs = x")
    case True
    then show ?thesis by (auto simp: exec_at_str_Eol)
  next
    case False
    have len: "length x \<le> length cs" if "suffix x cs"
      using that by (auto simp: suffix_def)
    from False have "suffix x (c # cs) \<longleftrightarrow> suffix x cs"
      by (auto simp: suffix_Cons)
    with False Cons show ?thesis
      by (auto simp: exec_at_str_Eol Suc_diff_le dest: len)
  qed
qed

section \<open>The claims\<close>

subsection \<open>C1: relationships whose target is no model\<close>

lemma author_relationships: "parseModelRelationships [author_model] = [author_posts]"
  by code_simp

lemma firstPass_names:
  "set (fst (foldl firstPass acc ms')) = set (fst acc) \<union> (\<lambda>m. toLowerCase (name m)) ` set ms'"
proof (induction ms' arbitrary: acc)
  case Nil
  show ?case by simp
next
  case (Cons m ms')
  have "set (fst (firstPass acc m)) = insert (toLowerCase (name m)) (set (fst acc))"
    by (auto simp: firstPass_def Let_def)
  with Cons[of "firstPass acc m"] show ?case by auto
qed

lemma processedModels_set:
  "set (processedModels info) = (\<lambda>m. toLowerCase (name m)) ` set (models info)"
  by (simp add: processedModels_def firstPass_names)

lemma processedModels_relationships [simp]:
  "processedModels (info\<lparr>relationships := rs\<rparr>) = processedModels info"
  by (simp add: processedModels_def)

lemma collectedForeignKeys_relationships [simp]:
  "collectedForeignKeys (info\<lparr>relationships := rs\<rparr>) = collectedForeignKeys info"
  by (simp add: collectedForeignKeys_def)

lemma relationLine_unresolved:
  "cleanModelName (targetModel r) \<notin> set processed \<Longrightarrow> relationLine processed r = []"
  by (simp add: relationLine_def Let_def)

lemma replace_classSuffix:
  "replace classSuffixRe [] s
   = (if suffix ''::class'' s then take (length s - length ''::class'') s else s)"
proof -
  have "search (length s) (seqs [str ''::class'', Eol]) s
   = (if suffix ''::class'' s
      then Some (take (length s - length ''::class'') s, (''::class'', Map.empty), []) else None)"
    by (rule search_str_Eol) simp
  then show ?thesis by (simp add: replace_def classSuffixRe_def)
qed

lemma mermaid_edges:
  assumes "''models'' \<in> set entityTypes" and "dd_relationships dd = rs1 @ r # rs2"
  shows "\<exists>pre post. generateMermaidDiagram dd entityTypes = pre @ relationshipEdge r @ post"
proof -
  define front where "front = ''classDiagram\<newline>''
     @ concat (map modelClass (dd_models dd))
     @ (if ''controllers'' \<in> set entityTypes
        then concat (map (stereotypedClass ''Controller'') (dd_controllers dd)) else [])
     @ (if ''services'' \<in> set entityTypes
        then concat (map (stereotypedClass ''Service'') (dd_services dd)) else [])"
  have "generateMermaidDiagram dd entityTypes
        = (front @ concat (map relationshipEdge rs1)) @ relationshipEdge r
            @ concat (map relationshipEdge rs2)"
    using assms by (simp add: generateMermaidDiagram_def front_def)
  then show ?thesis by blast
qed

lemma relationshipEdge_text:
  "relationshipEdge r =
     ''  '' @ (if suffix ''::class'' (sourceModel r)
              then take (length (sourceModel r) - length ''::class'') (sourceModel r)
              else sourceModel r)
     @ '' '' @ (if relationshipType r = ''hasMany'' then ''--*''
               else if relationshipType r = ''belongsTo'' then ''<--''
               else if relationshipType r = ''belongsToMany'' then ''<--*''
               else ''-->'')
     @ '' '' @ (if suffix ''::class'' (targetModel r)
               then take (length (targetModel r) - length ''::class'') (targetModel r)
               else targetModel r)
     @ '' : '' @ toLowerCase (relationshipName r) @ ''\<newline>''"
  by (simp only: relationshipEdge_def replace_classSuffix arrowOf_def split: if_splits) simp

lemma extractDataTypeFromCasts_Throws:
  "extractDataTypeFromCasts regExp prop castsMatch = Throws
   \<longleftrightarrow> (\<exists>cm. castsMatch = Some cm \<and> \<not> list_all wordChar prop
            \<and> regExp (castPatternSource prop) (grp_or cm 1 (grp_or cm 2 [])) = Throws)"
  by (auto simp: extractDataTypeFromCasts_def castMatch_def Let_def split: option.splits)

lemma fillableProperties_Throws:
  "fillableProperties regExp text = Throws
   \<longleftrightarrow> (\<exists>prop \<in> set (fillable text).
          extractDataTypeFromCasts regExp prop (match castsEitherRe text) = Throws)"
  unfolding fillableProperties_def by (rule js_all_map_Throws)

lemma rejected_iff:
  "rejected regExp model \<longleftrightarrow> fillableProperties regExp (content model) = Throws"
  by (auto simp: rejected_def fillableProperties_Throws extractDataTypeFromCasts_Throws
      list_ex_iff js_case_Throws split: option.splits)

lemma generateModelData_Throws:
  "generateModelData regExp ms' = Throws \<longleftrightarrow> list_ex (rejected regExp) ms'"
  unfolding generateModelData_def list_ex_iff rejected_iff by (rule js_all_map_Throws)

lemma generateUML_Throws:
  "generateUML regExp info = Throws \<longleftrightarrow> list_ex (rejected regExp) (models info)"
  by (simp add: generateUML_def diagramDataOf_def generateModelData_Throws)

lemma generateUML_Returns:
  assumes "generateUML regExp info = Returns out"
  shows "dd_relationships (diagram_data out) = relationships info
       \<and> models_diagram out = generateMermaidDiagram (diagram_data out) [''models'']
       \<and> full_diagram out
           = generateMermaidDiagram (diagram_data out) [''models'', ''controllers'', ''services'']"
  using assms by (auto simp: generateUML_def diagramDataOf_def js_map_eq_Returns)

lemma item_relationships: "parseModelRelationships [item_model] = [item_posts]"
  by code_simp

text \<open>
  C1 (as amended). A relationship whose target, after \<open>cleanModelName\<close>, is not the
  lower-cased name of any model of the project is left out of the ERD text: the text is
  the one the project gives without that relationship. The UML generator has no such
  test. It throws exactly when the runtime rejects the pattern made from a \<open>$fillable\<close>
  entry of a model with a \<open>$casts\<close> block; whenever it returns, both class diagrams
  contain the line of the relationship, which is two blanks, the source name, the arrow
  of the relationship kind, the target name, a colon and the lower-cased relation name
  (the names without a trailing \<open>::class\<close>), and the exported data carries the
  relationships of the project unchanged, this one included.
\<close>

theorem unresolved_relationship_in_erd_and_uml:
  assumes "relationships info = rs1 @ r # rs2"
    and "cleanModelName (targetModel r) \<notin> (\<lambda>m. toLowerCase (name m)) ` set (models info)"
  shows "generateERD info = generateERD (info\<lparr>relationships := rs1 @ rs2\<rparr>)
       \<and> (generateUML regExp info = Throws) = list_ex (rejected regExp) (models info)
       \<and> (let source = (if suffix ''::class'' (sourceModel r)
                         then take (length (sourceModel r) - length ''::class'') (sourceModel r)
                         else sourceModel r);
               arrow = (if relationshipType r = ''hasMany'' then ''--*''
                        else if relationshipType r = ''belongsTo'' then ''<--''
                        else if relationshipType r = ''belongsToMany'' then ''<--*''
                        else ''-->'');
               target = (if suffix ''::class'' (targetModel r)
                         then take (length (targetModel r) - length ''::class'') (targetModel r)
                         else targetModel r);
               line = ''  '' @ source @ '' '' @ arrow @ '' '' @ target @ '' : ''
                      @ toLowerCase (relationshipName r) @ ''\<newline>''
           in \<forall>out. generateUML regExp info = Returns out \<longrightarrow>
                (\<exists>pre post. models_diagram out = pre @ line @ post)
                \<and> (\<exists>pre post. full_diagram out = pre @ line @ post)
                \<and> dd_relationships (diagram_data out) = rs1 @ r # rs2)"
proof -
  from assms(2) have "relationLine (processedModels info) r = []"
    by (simp add: relationLine_unresolved processedModels_set)
  with assms(1) have erd: "generateERD info = generateERD (info\<lparr>relationships := rs1 @ rs2\<rparr>)"
    by (simp add: generateERD_def)
  have uml: "(\<exists>pre post. models_diagram out = pre @ relationshipEdge r @ post)
           \<and> (\<exists>pre post. full_diagram out = pre @ relationshipEdge r @ post)
           \<and> dd_relationships (diagram_data out) = rs1 @ r # rs2"
    if "generateUML regExp info = Returns out" for out
  proof -
    from generateUML_Returns[OF that] assms(1)
    have dd: "dd_relationships (diagram_data out) = rs1 @ r # rs2"
      and md: "models_diagram out = generateMermaidDiagram (diagram_data out) [''models'']"
      and fd: "full_diagram out
               = generateMermaidDiagram (diagram_data out) [''models'', ''controllers'', ''services'']"
      by simp_all
    have "\<exists>pre post. models_diagram out = pre @ relationshipEdge r @ post"
      unfolding md by (rule mermaid_edges[OF _ dd]) simp
    moreover have "\<exists>pre post. full_diagram out = pre @ relationshipEdge r @ post"
      unfolding fd by (rule mermaid_edges[OF _ dd]) simp
    ultimately show ?thesis using dd by blast
  qed
  show ?thesis
    unfolding Let_def relationshipEdge_text[symmetric]
    using erd uml generateUML_Throws[of regExp info] by blast
qed

theorem unresolved_relationship_in_erd_and_uml_witness:
  "relationships library = [] @ author_posts # []
   \<and> cleanModelName (targetModel author_posts) \<notin> (\<lambda>m. toLowerCase (name m)) ` set (models library)
   \<and> generateERD library = generateERD (library\<lparr>relationships := [] @ []\<rparr>)
   \<and> generateUML no_other_source library \<noteq> Throws
   \<and> (\<exists>out pre post. generateUML no_other_source library = Returns out
         \<and> models_diagram out = pre @ ''  Author --* Post : posts\<newline>'' @ post
         \<and> dd_relationships (diagram_data out) = [] @ author_posts # [])
   \<and> relationships (project [item_model] [] []) = [] @ item_posts # []
   \<and> fillable (content item_model) = [''a('']
   \<and> generateUML no_other_source (project [item_model] [] []) = Throws"
proof -
  have a: "relationships library = [] @ author_posts # []"
    by (simp add: library_def project_def author_relationships)
  have "cleanModelName (targetModel author_posts) = ''post''" by code_simp
  moreover have "toLowerCase (name author_model) = ''author''" by code_simp
  ultimately have
    b: "cleanModelName (targetModel author_posts) \<notin> (\<lambda>m. toLowerCase (name m)) ` set (models library)"
    by (simp add: library_def project_def)
  note c = unresolved_relationship_in_erd_and_uml[OF a b, of no_other_source, unfolded Let_def]
  have "\<not> list_ex (rejected no_other_source) (models library)" by code_simp
  with c have d: "generateUML no_other_source library \<noteq> Throws" by blast
  then obtain out where out: "generateUML no_other_source library = Returns out"
    by (cases "generateUML no_other_source library") auto
  have line: "''  '' @ (if suffix ''::class'' (sourceModel author_posts)
                then take (length (sourceModel author_posts) - length ''::class'')
                       (sourceModel author_posts)
                else sourceModel author_posts)
       @ '' '' @ (if relationshipType author_posts = ''hasMany'' then ''--*''
                 else if relationshipType author_posts = ''belongsTo'' then ''<--''
                 else if relationshipType author_posts = ''belongsToMany'' then ''<--*''
                 else ''-->'')
       @ '' '' @ (if suffix ''::class'' (targetModel author_posts)
                 then take (length (targetModel author_posts) - length ''::class'')
                        (targetModel author_posts)
                 else targetModel author_posts)
       @ '' : '' @ toLowerCase (relationshipName author_posts) @ ''\<newline>''
       = ''  Author --* Post : posts\<newline>''"
    by code_simp
  from c out have "\<exists>pre post. models_diagram out = pre @ ''  Author --* Post : posts\<newline>'' @ post"
    and "dd_relationships (diagram_data out) = [] @ author_posts # []"
    and "generateERD library = generateERD (library\<lparr>relationships := [] @ []\<rparr>)"
    unfolding line by blast+
  with a b d out have first: "relationships library = [] @ author_posts # []
   \<and> cleanModelName (targetModel author_posts) \<notin> (\<lambda>m. toLowerCase (name m)) ` set (models library)
   \<and> generateERD library = generateERD (library\<lparr>relationships := [] @ []\<rparr>)
   \<and> generateUML no_other_source library \<noteq> Throws
   \<and> (\<exists>out pre post. generateUML no_other_source library = Returns out
         \<and> models_diagram out = pre @ ''  Author --* Post : posts\<newline>'' @ post
         \<and> dd_relationships (diagram_data out) = [] @ author_posts # [])"
    by blast
  have e: "relationships (project [item_model] [] []) = [] @ item_posts # []"
    by (simp add: project_def item_relationships)
  have "cleanModelName (targetModel item_posts) = ''post''" by code_simp
  moreover have "toLowerCase (name item_model) = ''item''" by code_simp
  ultimately have
    f: "cleanModelName (targetModel item_posts)
          \<notin> (\<lambda>m. toLowerCase (name m)) ` set (models (project [item_model] [] []))"
    by (simp add: project_def)
  have g: "fillable (content item_model) = [''a('']" by code_simp
  have "list_ex (rejected no_other_source) (models (project [item_model] [] []))" by code_simp
  with unresolved_relationship_in_erd_and_uml[OF e f, of no_other_source]
  have "generateUML no_other_source (project [item_model] [] []) = Throws" by blast
  with first e g show ?thesis by blast
qed

lemma library_uml:
  "generateUML regExp library
   = Returns \<lparr>diagram_data =
                \<lparr>dd_models = [\<lparr>pm_name = ''Author'', properties = [], methods = [],
                                namespace = [], tableName = None\<rparr>],
                 dd_controllers = [], dd_services = [], dd_relationships = [author_posts]\<rparr>,
              models_diagram = ''classDiagram\<newline>  class Author {\<newline>  }\<newline>  Author --* Post : posts\<newline>'',
              full_diagram = ''classDiagram\<newline>  class Author {\<newline>  }\<newline>  Author --* Post : posts\<newline>''\<rparr>"
  by code_simp

text \<open>
  C1, counterexample. The only model of the project is \<open>Author\<close>; its relationship
  \<open>posts\<close> has the target \<open>Post\<close>, which is no model of the project. The relationship is
  in the UML text all the same, whatever the runtime does with a pattern source: the
  model has no \<open>$fillable\<close> list, so no pattern is built.
\<close>

theorem unresolved_relationship_counterexample:
  "relationships library = [author_posts]
   \<and> cleanModelName (targetModel author_posts) \<notin> set (processedModels library)
   \<and> js_map models_diagram (generateUML no_other_source library)
       = Returns ''classDiagram\<newline>  class Author {\<newline>  }\<newline>  Author --* Post : posts\<newline>''
   \<and> js_map models_diagram (generateUML no_other_source (library\<lparr>relationships := []\<rparr>))
       = Returns ''classDiagram\<newline>  class Author {\<newline>  }\<newline>''"
proof -
  have "relationships library = [author_posts]"
    by (simp add: library_def project_def author_relationships)
  moreover have "cleanModelName (targetModel author_posts) \<notin> set (processedModels library)"
    by code_simp
  moreover have "js_map models_diagram (generateUML no_other_source library)
       = Returns ''classDiagram\<newline>  class Author {\<newline>  }\<newline>  Author --* Post : posts\<newline>''"
    by (simp add: library_uml)
  moreover have
    "js_map models_diagram (generateUML no_other_source (library\<lparr>relationships := []\<rparr>))
       = Returns ''classDiagram\<newline>  class Author {\<newline>  }\<newline>''"
    by code_simp
  ultimately show ?thesis by blast
qed

subsection \<open>C2 to C4: methods, primary keys and timestamps\<close>

text \<open>
  C2, the input on which the code departs from the claim. \<open>User\<close> has the public
  functions \<open>posts\<close>, a relationship accessor, and \<open>fullName\<close>, whose body calls no
  relationship builder; the model data has no method at all, so \<open>fullName\<close> gets no
  method line. The test that skips a method looks for a builder call in the whole model
  text, not in the body of the method.
\<close>

theorem plain_method_of_related_model_dropped:
  "map (\<lambda>m. grp_str m 1) (matchAll methodRe (content user_model)) = [''posts'', ''fullName'']
   \<and> skippedAsRelationship (content user_model) ''fullName''
   \<and> js_map (map methods) (generateModelData regExp [user_model]) = Returns [[]]"
  by code_simp




































lemma plainColumn_attribute:
  "plainColumn t n \<in> set (map attributeColumn as) \<Longrightarrow> n \<in> aname ` set as"
  by (auto simp: plainColumn_def attributeColumn_def)

lemma plainColumn_in_entityColumns:
  assumes "n \<notin> aname ` set as" and "n \<noteq> ''id''"
  shows "plainColumn ''datetime'' n \<in> set (entityColumns model as)
         \<longleftrightarrow> (usesTimestamps model \<and> (n = ''created_at'' \<or> n = ''updated_at''))
             \<or> (usesSoftDeletes model \<and> n = ''deleted_at'')"
proof -
  have "plainColumn ''datetime'' n \<notin> set (map attributeColumn as)"
    using assms(1) plainColumn_attribute by blast
  moreover have "plainColumn ''datetime'' n \<noteq> defaultIdColumn"
    using assms(2) by (simp add: plainColumn_def defaultIdColumn_def)
  moreover have "plainColumn ''datetime'' n = plainColumn ''datetime'' n' \<longleftrightarrow> n = n'" for n'
    by (simp add: plainColumn_def)
  ultimately show ?thesis
    by (auto simp: entityColumns_def)
qed

text \<open>
  C4 (as amended). For a model with an entity block (at least one extracted attribute)
  and no extracted attribute named \<open>created_at\<close>, \<open>updated_at\<close> or \<open>deleted_at\<close>: the
  block has the columns \<open>datetime created_at\<close> and \<open>datetime updated_at\<close> if and only if
  the model text contains \<open>use HasFactory\<close> or \<open>use Timestamps\<close> or does not contain
  \<open>public $timestamps = false\<close>; it has the column \<open>datetime deleted_at\<close> if and only if the
  text contains \<open>use SoftDeletes\<close>.
\<close>

theorem timestamp_columns:
  assumes "attributes = extractModelAttributes model fks"
    and "attributes \<noteq> []"
    and "''created_at'' \<notin> aname ` set attributes"
    and "''updated_at'' \<notin> aname ` set attributes"
    and "''deleted_at'' \<notin> aname ` set attributes"
  shows "entityBlock fks model
           = ''  '' @ toLowerCase (name model) @ '' {\<newline>''
             @ concat (map render_column (entityColumns model attributes)) @ ''  }\<newline>''
       \<and> (plainColumn ''datetime'' ''created_at'' \<in> set (entityColumns model attributes)
            \<and> plainColumn ''datetime'' ''updated_at'' \<in> set (entityColumns model attributes)
          \<longleftrightarrow> includes_s (content model) ''use HasFactory''
              \<or> includes_s (content model) ''use Timestamps''
              \<or> \<not> includes_s (content model) ''public $timestamps = false'')
       \<and> (plainColumn ''datetime'' ''deleted_at'' \<in> set (entityColumns model attributes)
          \<longleftrightarrow> includes_s (content model) ''use SoftDeletes'')"
proof -
  have "entityBlock fks model
           = ''  '' @ toLowerCase (name model) @ '' {\<newline>''
             @ concat (map render_column (entityColumns model attributes)) @ ''  }\<newline>''"
    using assms(1,2) by (simp add: entityBlock_def Let_def)
  moreover have "plainColumn ''datetime'' ''created_at'' \<in> set (entityColumns model attributes)
      \<longleftrightarrow> usesTimestamps model"
    using plainColumn_in_entityColumns[OF assms(3)] by simp
  moreover have "plainColumn ''datetime'' ''updated_at'' \<in> set (entityColumns model attributes)
      \<longleftrightarrow> usesTimestamps model"
    using plainColumn_in_entityColumns[OF assms(4)] by simp
  moreover have "plainColumn ''datetime'' ''deleted_at'' \<in> set (entityColumns model attributes)
      \<longleftrightarrow> usesSoftDeletes model"
    using plainColumn_in_entityColumns[OF assms(5)] by simp
  ultimately show ?thesis by (simp add: usesTimestamps_def usesSoftDeletes_def)
qed

lemma post_attributes: "extractModelAttributes post_model Map.empty = [title_attribute]"
  by code_simp

theorem timestamp_columns_witness:
  "extractModelAttributes post_model Map.empty = [title_attribute]
   \<and> includes_s (content post_model) ''use HasFactory''
   \<and> plainColumn ''datetime'' ''created_at'' \<in> set (entityColumns post_model [title_attribute])
   \<and> plainColumn ''datetime'' ''updated_at'' \<in> set (entityColumns post_model [title_attribute])
   \<and> \<not> includes_s (content post_model) ''use SoftDeletes''
   \<and> plainColumn ''datetime'' ''deleted_at'' \<notin> set (entityColumns post_model [title_attribute])"
proof -
  have a: "[title_attribute] = extractModelAttributes post_model Map.empty"
    by (simp add: post_attributes)
  have b: "''created_at'' \<notin> aname ` set [title_attribute]"
    "''updated_at'' \<notin> aname ` set [title_attribute]"
    "''deleted_at'' \<notin> aname ` set [title_attribute]"
    by (simp_all add: title_attribute_def)
  have c: "includes_s (content post_model) ''use HasFactory''"
    "\<not> includes_s (content post_model) ''use SoftDeletes''"
    by code_simp+
  show ?thesis using timestamp_columns[OF a _ b] c by (simp add: post_attributes)
qed

text \<open>
  C4, counterexample. \<open>Post\<close> disables timestamps and uses \<open>HasFactory\<close>: its block has
  the two timestamp columns. \<open>Tag\<close> does not disable timestamps and has no block at all.
  \<open>Event\<close> does not use soft deletes and casts an attribute \<open>deleted_at\<close>: its block has
  a \<open>datetime deleted_at\<close> column.
\<close>

theorem timestamp_columns_counterexample:
  "includes_s (content post_model) ''public $timestamps = false''
   \<and> generateERD (project [post_model] [] [])
       = ''erDiagram\<newline>  post {\<newline>''
         @ ''    int id PK '' @ dq @ ''Primary key'' @ dq @ ''\<newline>''
         @ ''    string title\<newline>''
         @ ''    datetime created_at\<newline>    datetime updated_at\<newline>  }\<newline>''
   \<and> \<not> includes_s (content tag_model) ''public $timestamps = false''
   \<and> generateERD (project [tag_model] [] []) = ''erDiagram\<newline>''
   \<and> \<not> includes_s (content event_model) ''use SoftDeletes''
   \<and> generateERD (project [event_model] [] [])
       = ''erDiagram\<newline>  event {\<newline>''
         @ ''    int id PK '' @ dq @ ''Primary key'' @ dq @ ''\<newline>''
         @ ''    datetime deleted_at\<newline>''
         @ ''    datetime created_at\<newline>    datetime updated_at\<newline>  }\<newline>''"
  by code_simp

subsection \<open>C5 and C7: attribute types\<close>

text \<open>
  C5 (as amended). The type inferred for an attribute name without a cast: \<open>id\<close> or a name
  ending in \<open>_id\<close> gives \<open>int\<close>; else a name containing \<open>email\<close> or \<open>password\<close> gives
  \<open>string\<close>; else one containing \<open>date\<close> or \<open>time\<close> gives \<open>datetime\<close>; else one containing
  \<open>is_\<close> or \<open>has_\<close> anywhere gives \<open>boolean\<close>; else one containing \<open>count\<close>, \<open>amount\<close>,
  \<open>price\<close> or \<open>total\<close> gives \<open>float\<close>; every other name, also one containing \<open>uuid\<close>,
  gives \<open>string\<close>.
\<close>

theorem inferAttributeType_priority:
  "inferAttributeType n =
     (if n = ''id'' \<or> suffix ''_id'' n then ''int''
      else if sublist ''email'' n \<or> sublist ''password'' n then ''string''
      else if sublist ''date'' n \<or> sublist ''time'' n then ''datetime''
      else if sublist ''is_'' n \<or> sublist ''has_'' n then ''boolean''
      else if sublist ''count'' n \<or> sublist ''amount'' n \<or> sublist ''price'' n
              \<or> sublist ''total'' n then ''float''
      else ''string'')"
  by (simp add: inferAttributeType_def includes_s_sublist endsWith_suffix)

theorem inferAttributeType_priority_witness:
  "inferAttributeType ''is_total_paid'' = ''boolean'' \<and> sublist ''is_'' ''is_total_paid''
   \<and> sublist ''total'' ''is_total_paid''"
proof -
  have a: "sublist ''is_'' ''is_total_paid''" "sublist ''total'' ''is_total_paid''"
    "\<not> suffix ''_id'' ''is_total_paid''" "\<not> sublist ''email'' ''is_total_paid''"
    "\<not> sublist ''password'' ''is_total_paid''" "\<not> sublist ''date'' ''is_total_paid''"
    "\<not> sublist ''time'' ''is_total_paid''"
    unfolding includes_s_sublist[symmetric] endsWith_suffix[symmetric] by code_simp+
  show ?thesis using inferAttributeType_priority[of "''is_total_paid''"] a by simp
qed

text \<open>
  C5, counterexample. Read as stated, the claim gives \<open>string\<close> for \<open>uuid_time\<close> (it
  contains \<open>uuid\<close>, which the claim tests before \<open>time\<close>) and \<open>float\<close> for \<open>this_count\<close>
  (it does not start with \<open>is_\<close> or \<open>has_\<close> and contains \<open>count\<close>); the code gives
  \<open>datetime\<close> and \<open>boolean\<close>.
\<close>

theorem inferAttributeType_counterexample:
  "includes_s ''uuid_time'' ''uuid'' \<and> ''uuid_time'' \<noteq> ''id'' \<and> \<not> endsWith ''uuid_time'' ''_id''
   \<and> inferAttributeType ''uuid_time'' = ''datetime''
   \<and> \<not> startsWith ''this_count'' ''is_'' \<and> \<not> startsWith ''this_count'' ''has_''
   \<and> includes_s ''this_count'' ''count'' \<and> ''this_count'' \<noteq> ''id''
   \<and> \<not> endsWith ''this_count'' ''_id'' \<and> \<not> includes_s ''this_count'' ''email''
   \<and> \<not> includes_s ''this_count'' ''password'' \<and> \<not> includes_s ''this_count'' ''uuid''
   \<and> \<not> includes_s ''this_count'' ''date'' \<and> \<not> includes_s ''this_count'' ''time''
   \<and> inferAttributeType ''this_count'' = ''boolean''"
  by code_simp

text \<open>
  C7 (as amended). The cast keyword \<open>decimal\<close> maps to \<open>float\<close>, in any letter case; a
  keyword whose lower-cased form is not a key of the table, and is not \<open>constructor\<close> or
  \<open>__proto__\<close>, maps to \<open>string\<close>.
\<close>

theorem mapCastTypeToErdType_table:
  "(toLowerCase k = ''decimal'' \<longrightarrow> mapCastTypeToErdType k = TypeName ''float'')
   \<and> (toLowerCase k \<notin> set (map fst typeMap) \<longrightarrow> toLowerCase k \<noteq> ''constructor''
        \<longrightarrow> toLowerCase k \<noteq> ''__proto__'' \<longrightarrow> mapCastTypeToErdType k = TypeName ''string'')"
proof (intro conjI impI)
  assume "toLowerCase k = ''decimal''"
  then show "mapCastTypeToErdType k = TypeName ''float''"
    by (simp add: mapCastTypeToErdType_def typeMap_def)
next
  assume a: "toLowerCase k \<notin> set (map fst typeMap)"
    and b: "toLowerCase k \<noteq> ''constructor''" "toLowerCase k \<noteq> ''__proto__''"
  from a have "map_of typeMap (toLowerCase k) = None"
    by (simp add: map_of_eq_None_iff)
  moreover from b inherited_lowercase_key[of k]
  have "toLowerCase k \<notin> set Object_prototype_members" by blast
  ultimately show "mapCastTypeToErdType k = TypeName ''string''"
    by (simp add: mapCastTypeToErdType_def)
qed

theorem mapCastTypeToErdType_table_witness:
  "toLowerCase ''Decimal'' = ''decimal'' \<and> mapCastTypeToErdType ''Decimal'' = TypeName ''float''
   \<and> toLowerCase ''Money'' \<notin> set (map fst typeMap)
   \<and> mapCastTypeToErdType ''Money'' = TypeName ''string''"
proof -
  have a: "toLowerCase ''Decimal'' = ''decimal''" by code_simp
  have b: "toLowerCase ''Money'' \<notin> set (map fst typeMap)"
    "toLowerCase ''Money'' \<noteq> ''constructor''" "toLowerCase ''Money'' \<noteq> ''__proto__''"
    by code_simp+
  show ?thesis
    using mapCastTypeToErdType_table[of "''Decimal''"] mapCastTypeToErdType_table[of "''Money''"] a b
    by blast
qed

text \<open>
  C7, counterexample. \<open>INT\<close> and \<open>constructor\<close> are not keys of the table, yet neither
  maps to \<open>string\<close>: the first is lower-cased before the lookup, the second finds a
  member the table object inherits.
\<close>

theorem mapCastTypeToErdType_counterexample:
  "''INT'' \<notin> set (map fst typeMap) \<and> mapCastTypeToErdType ''INT'' = TypeName ''int''
   \<and> ''constructor'' \<notin> set (map fst typeMap)
   \<and> mapCastTypeToErdType ''constructor'' = Inherited ''constructor''"
  by code_simp

subsection \<open>C6, C8 and C9: routes and controller actions\<close>

















text \<open>
  C8. Every action named \<open>store\<close> of a controller of the project gets a diagram, and
  every diagram of an action named \<open>store\<close> is classified \<open>create\<close>: the classification
  is a function of the action's name alone.
\<close>

theorem store_is_create:
  assumes "controller \<in> set (controllers info)"
    and "''store'' \<in> set (actionNames controller)"
  shows "(\<exists>d \<in> set (generateSequenceDiagrams info).
            di_name d = name controller @ ''::store'' \<and> di_method d = ''store''
            \<and> di_type d = ''create'')
       \<and> (\<forall>d \<in> set (generateSequenceDiagrams info). di_method d = ''store'' \<longrightarrow> di_type d = ''create'')"
proof
  have "\<not> skippedAction ''store''" by (simp add: skippedAction_def)
  with assms have "diagramInfoOf info controller ''store'' \<in> set (generateSequenceDiagrams info)"
    by (auto simp: generateSequenceDiagrams_def)
  moreover have "di_name (diagramInfoOf info controller ''store'') = name controller @ ''::store''"
    "di_method (diagramInfoOf info controller ''store'') = ''store''"
    "di_type (diagramInfoOf info controller ''store'') = ''create''"
    by (simp_all add: diagramInfoOf_def Let_def sequenceTypeOf_def)
  ultimately show "\<exists>d \<in> set (generateSequenceDiagrams info).
            di_name d = name controller @ ''::store'' \<and> di_method d = ''store''
            \<and> di_type d = ''create''"
    by blast
  show "\<forall>d \<in> set (generateSequenceDiagrams info). di_method d = ''store'' \<longrightarrow> di_type d = ''create''"
    by (auto simp: generateSequenceDiagrams_def diagramInfoOf_def Let_def sequenceTypeOf_def)
qed

lemma post_controller_actions: "actionNames post_controller = [''store'']"
  by code_simp

theorem store_is_create_witness:
  "includes_s (content post_controller) ''destroy''
   \<and> actionNames post_controller = [''store'']
   \<and> (\<exists>d \<in> set (generateSequenceDiagrams (project [] [post_controller] [])).
         di_name d = ''PostController::store'' \<and> di_method d = ''store'' \<and> di_type d = ''create'')"
proof -
  have a: "post_controller \<in> set (controllers (project [] [post_controller] []))"
    by (simp add: project_def)
  have b: "''store'' \<in> set (actionNames post_controller)"
    by (simp add: post_controller_actions)
  have c: "includes_s (content post_controller) ''destroy''" by code_simp
  have d: "name post_controller = ''PostController''" by (simp add: post_controller_def)
  from store_is_create[OF a b] d
  have "\<exists>d \<in> set (generateSequenceDiagrams (project [] [post_controller] [])).
         di_name d = ''PostController::store'' \<and> di_method d = ''store'' \<and> di_type d = ''create''"
    by simp
  with c post_controller_actions show ?thesis by blast
qed

lemma startsWith_slash: "startsWith s (''/'' @ p) \<Longrightarrow> startsWith s ''/''"
  by (cases s) simp_all

lemma tagGroup_keeps: "\<not> startsWith (epath e) ''/'' \<Longrightarrow> tagGroup fileName p e = e"
  using startsWith_slash[of "epath e" p] by (auto simp: tagGroup_def)

lemma tagGroup_path: "epath (tagGroup fileName p e) = epath e"
  by (simp add: tagGroup_def)

lemma tag_all_keeps:
  "length (foldl (\<lambda>es m. map (tagGroup fileName (grp_str m 1)) es) es ms') = length es
   \<and> (\<forall>i < length es. \<not> startsWith (epath (es ! i)) ''/''
         \<longrightarrow> foldl (\<lambda>es m. map (tagGroup fileName (grp_str m 1)) es) es ms' ! i = es ! i)"
proof (induction ms' arbitrary: es)
  case Nil
  show ?case by simp
next
  case (Cons m ms')
  let ?es = "map (tagGroup fileName (grp_str m 1)) es"
  from Cons[of ?es] show ?case
    by (auto simp: tagGroup_keeps)
qed

lemma extractRouteGroups_keeps:
  "length (extractRouteGroups rf es) = length es
   \<and> (\<forall>i < length es. \<not> startsWith (epath (es ! i)) ''/'' \<longrightarrow> extractRouteGroups rf es ! i = es ! i)"
  unfolding extractRouteGroups_def by (rule tag_all_keeps)

lemma untagged_tagGroup: "untagged es \<Longrightarrow> untagged (map (tagGroup fileName p) es)"
  unfolding untagged_def
proof (intro ballI impI)
  fix e' assume u: "\<forall>e \<in> set es. \<not> startsWith (epath e) ''/'' \<longrightarrow> egroup e = None"
    and e': "e' \<in> set (map (tagGroup fileName p) es)" "\<not> startsWith (epath e') ''/''"
  from e'(1) obtain e where e: "e \<in> set es" "e' = tagGroup fileName p e" by auto
  with e'(2) have "\<not> startsWith (epath e) ''/''" by (simp add: tagGroup_path)
  with e u show "egroup e' = None" by (simp add: tagGroup_keeps)
qed

lemma untagged_tag_all:
  "untagged es \<Longrightarrow> untagged (foldl (\<lambda>es m. map (tagGroup fileName (grp_str m 1)) es) es ms')"
  by (induction ms' arbitrary: es) (simp_all add: untagged_tagGroup)

lemma untagged_groups: "untagged es \<Longrightarrow> untagged (extractRouteGroups rf es)"
  unfolding extractRouteGroups_def by (rule untagged_tag_all)

lemma expandResource_paths:
  "e \<in> set (expandResource label routes fileName p h only except) \<Longrightarrow> startsWith (epath e) ''/''"
  by (auto simp: expandResource_def)

lemma resource_new:
  "\<exists>new. extractResourceRoutes rf es = es @ new \<and> (\<forall>e \<in> set new. startsWith (epath e) ''/'')"
  unfolding extractResourceRoutes_def
  by (intro exI conjI, rule refl) (auto dest: expandResource_paths)

lemma apiResource_new:
  "\<exists>new. extractApiResourceRoutes rf es = es @ new \<and> (\<forall>e \<in> set new. startsWith (epath e) ''/'')"
  unfolding extractApiResourceRoutes_def
  by (intro exI conjI, rule refl) (auto dest: expandResource_paths)

lemma untagged_append:
  "untagged es \<Longrightarrow> \<forall>e \<in> set new. startsWith (epath e) ''/'' \<or> egroup e = None
   \<Longrightarrow> untagged (es @ new)"
  by (auto simp: untagged_def)

lemma untagged_resource: "untagged es \<Longrightarrow> untagged (extractResourceRoutes rf es)"
proof -
  assume u: "untagged es"
  from resource_new[of rf es] obtain new where
    "extractResourceRoutes rf es = es @ new" "\<forall>e \<in> set new. startsWith (epath e) ''/''"
    by (elim exE conjE)
  with u show ?thesis by (simp add: untagged_append)
qed

lemma untagged_apiResource: "untagged es \<Longrightarrow> untagged (extractApiResourceRoutes rf es)"
proof -
  assume u: "untagged es"
  from apiResource_new[of rf es] obtain new where
    "extractApiResourceRoutes rf es = es @ new" "\<forall>e \<in> set new. startsWith (epath e) ''/''"
    by (elim exE conjE)
  with u show ?thesis by (simp add: untagged_append)
qed

lemma untagged_standard: "untagged es \<Longrightarrow> untagged (extractStandardRoutes rf es)"
  unfolding extractStandardRoutes_def
  by (rule untagged_append) (auto simp: standardEndpoint_def Let_def)

lemma untagged_endpoints: "untagged es \<Longrightarrow> untagged (foldl
    (\<lambda>endpoints routeFile'.
        extractRouteGroups routeFile'
          (extractApiResourceRoutes routeFile'
            (extractResourceRoutes routeFile'
              (extractStandardRoutes routeFile' endpoints)))) es rfs)"
  by (induction rfs arbitrary: es)
     (simp_all add: untagged_groups untagged_apiResource untagged_resource untagged_standard)

text \<open>
  C9. The endpoints that the expansion of a resource or API-resource declaration adds
  have paths that start with \<open>/\<close>; the endpoint of a verb declaration has the declared
  path as it is written. The tagging pass leaves every endpoint whose path does not start
  with \<open>/\<close> as it is. So in the list of endpoints of a project, an endpoint whose path
  does not start with \<open>/\<close> has no group label.
\<close>

theorem slashless_paths_get_no_group:
  "(\<exists>new. extractResourceRoutes rf es = es @ new \<and> (\<forall>e \<in> set new. startsWith (epath e) ''/''))
   \<and> (\<exists>new. extractApiResourceRoutes rf es = es @ new
          \<and> (\<forall>e \<in> set new. startsWith (epath e) ''/''))
   \<and> extractStandardRoutes rf es
       = es @ map (standardEndpoint rf) (matchAll standardRouteRe (content rf))
   \<and> epath (standardEndpoint rf m) = grp_str m 2
   \<and> length (extractRouteGroups rf es) = length es
   \<and> (\<forall>i < length es. \<not> startsWith (epath (es ! i)) ''/''
         \<longrightarrow> extractRouteGroups rf es ! i = es ! i)
   \<and> (\<forall>e \<in> set (extractEndpoints info). \<not> startsWith (epath e) ''/'' \<longrightarrow> egroup e = None)"
proof -
  have "untagged []" by (simp add: untagged_def)
  then have "untagged (extractEndpoints info)"
    unfolding extractEndpoints_def by (rule untagged_endpoints)
  then have "\<forall>e \<in> set (extractEndpoints info). \<not> startsWith (epath e) ''/'' \<longrightarrow> egroup e = None"
    by (simp add: untagged_def)
  moreover have "epath (standardEndpoint rf m) = grp_str m 2"
    by (simp add: standardEndpoint_def Let_def)
  moreover have "extractStandardRoutes rf es
       = es @ map (standardEndpoint rf) (matchAll standardRouteRe (content rf))"
    by (simp add: extractStandardRoutes_def)
  ultimately show ?thesis
    using resource_new[of rf es] apiResource_new[of rf es] extractRouteGroups_keeps[of rf es]
    by (intro conjI) (elim conjE, assumption)+
qed

lemma api_paths:
  "map epath (extractEndpoints (project [] [] [api_routes])) = [''admin/users'']"
  by code_simp

theorem slashless_paths_get_no_group_witness:
  "map (\<lambda>m. grp_str m 1) (matchAll routeGroupRe (content api_routes)) = [''admin'']
   \<and> map epath (extractEndpoints (project [] [] [api_routes])) = [''admin/users'']
   \<and> map egroup (extractEndpoints (project [] [] [api_routes])) = [None]"
proof -
  have a: "map (\<lambda>m. grp_str m 1) (matchAll routeGroupRe (content api_routes)) = [''admin'']"
    by code_simp
  from api_paths obtain e where e: "extractEndpoints (project [] [] [api_routes]) = [e]"
    "epath e = ''admin/users''"
    by auto
  then have "\<not> startsWith (epath e) ''/''" by simp
  with slashless_paths_get_no_group[of api_routes "[]" undefined "project [] [] [api_routes]"] e
  have "egroup e = None" by simp
  with a e api_paths show ?thesis by simp
qed

subsection \<open>C10: what the relationship patterns match\<close>

text \<open>
  C10. Every relationship \<open>parseModelRelationships\<close> returns comes from a model whose
  text contains, for one of the seven builders, a public function with an empty parameter
  list whose body starts with the \<open>return\<close> of that builder call; the relationship's name
  is the function's name and its type the builder. So a method with parameters, or with
  anything but white space between \<open>{\<close> and \<open>return\<close>, yields nothing, and neither does
  \<open>hasOneThrough\<close> or \<open>hasManyThrough\<close>, which are not among the seven and are not
  matched by \<open>hasOne\<close> or \<open>hasMany\<close> followed by \<open>(\<close>.
\<close>

theorem relationships_only_from_immediate_returns:
  assumes "f \<in> set (parseModelRelationships models')"
  shows "\<exists>model \<in> set models'.
           sourceModel f = name model
           \<and> relationshipType f \<in> set relationBuilders
           \<and> (\<exists>pre t. content model = pre @ t
                 \<and> relationMethodText (relationshipType f) (relationshipName f) t)"
proof -
  from assms obtain model kind regex m where
    model: "model \<in> set models'" and pat: "(kind, regex) \<in> set relationshipPatterns"
    and m: "m \<in> set (matchAll regex (content model))" and f: "f = relationshipOf model kind m"
    by (auto simp: parseModelRelationships_def)
  from matchAll_sound[OF m] obtain pre t s' where
    c: "content model = pre @ t"
    and r: "(s', snd m) \<in> set (ms (length (content model)) regex (t, Map.empty))"
    by blast
  from pattern_match[OF pat r] obtain nm where
    k: "kind \<in> set relationBuilders" "snd m 1 = Some nm" "relationMethodText kind nm t"
    by blast
  from k(2) have "grp_str m 1 = nm" by (simp add: grp_str_def)
  with f k c have "sourceModel f = name model \<and> relationshipType f \<in> set relationBuilders
      \<and> (\<exists>pre t. content model = pre @ t
            \<and> relationMethodText (relationshipType f) (relationshipName f) t)"
    by (auto simp: relationshipOf_def)
  with model show ?thesis by blast
qed

theorem relationships_only_from_immediate_returns_witness:
  "parseModelRelationships [author_model] = [author_posts]
   \<and> (\<exists>pre t. content author_model = pre @ t \<and> relationMethodText ''hasMany'' ''posts'' t)
   \<and> parseModelRelationships [draft_model] = []"
proof -
  have "author_posts \<in> set (parseModelRelationships [author_model])"
    by (simp add: author_relationships)
  from relationships_only_from_immediate_returns[OF this]
  have "\<exists>pre t. content author_model = pre @ t \<and> relationMethodText ''hasMany'' ''posts'' t"
    by (simp add: author_posts_def)
  moreover have "parseModelRelationships [draft_model] = []" by code_simp
  ultimately show ?thesis by (simp add: author_relationships)
qed

theorem plain_method_of_related_model_dropped_witness:
  "js_map (\<lambda>ms'. concat (map methods ms')) (generateModelData no_other_source [user_model])
   = Returns []"
proof -
  from plain_method_of_related_model_dropped[of no_other_source]
  have "js_map (map methods) (generateModelData no_other_source [user_model]) = Returns [[]]"
    by blast
  then show ?thesis
    by (cases "generateModelData no_other_source [user_model]") auto
qed

end
